theory Spec2Isabelle
  imports Complex_Main
begin

section \<open>Log Store and application state (types.ts, App.tsx)\<close>

text \<open>
  \<^verbatim>\<open>export type LogStatus = 'pending' | 'success' | 'error' | 'info';\<close>
\<close>

datatype LogStatus = Pending | Success | Error | Info

text \<open>
  \<^verbatim>\<open>interface LogEntry { id: number; message: string; status: LogStatus; }\<close>
  The field \<open>id\<close> is written \<open>id_log\<close> (HOL has a constant \<open>id\<close>). A JavaScript
  number that is neither NaN nor infinite is modelled as a real; strings are lists of
  code units.
\<close>

record LogEntry =
  id_log :: real
  message :: string
  status :: LogStatus

text \<open>One element of the \<open>steps\<close> array of \<open>handleStartSync\<close>.\<close>

record step =
  msg :: string
  delay :: nat
  status_step :: LogStatus

text \<open>The object held by the \<open>imageData\<close> state of \<open>App\<close>.\<close>

record image =
  url :: string
  base64 :: string
  mimeType :: string
  name :: string

text \<open>The \<open>useState\<close> cells of the \<open>App\<close> component that the handlers below read or write.\<close>

record app =
  isAuthenticated :: bool
  logs :: "LogEntry list"
  isSyncing :: bool
  isSessionPersistent :: bool
  fileContent :: "string option"
  pastedContent :: string
  fileName :: "string option"
  imageData :: "image option"
  syncCompleted :: bool
  showAnalyzer :: bool
  showUpdateModal :: bool
  snoozeUntil :: "int option"

text \<open>
  The environment of a handler. The expression \<^verbatim>\<open>Date.now() + Math.random()\<close> reads the
  clock and the random generator and adds two doubles; its value is given by the
  environment: \<open>id_drawn w k\<close> is the double it yields the \<open>k\<close>-th time a handler evaluates
  it. The double is finite and stands here as the real number it denotes, so \<open>===\<close> on
  two of them is equality.
\<close>

record world =
  id_drawn :: "nat \<Rightarrow> real"

text \<open>\<^verbatim>\<open>id: Date.now() + Math.random()\<close>\<close>

definition newId :: "world \<Rightarrow> nat \<Rightarrow> real" where
  "newId w k = id_drawn w k"

subsection \<open>JavaScript truthiness of the payload cells\<close>

text \<open>A \<open>string | null\<close> value is truthy when it is a non-empty string.\<close>

definition truthy_str :: "string option \<Rightarrow> bool" where
  "truthy_str s = (case s of None \<Rightarrow> False | Some t \<Rightarrow> t \<noteq> [])"

text \<open>\<^verbatim>\<open>const hasData = !!fileContent || !!pastedContent || !!imageData;\<close>\<close>

definition hasData :: "app \<Rightarrow> bool" where
  "hasData st = (truthy_str (fileContent st) \<or> pastedContent st \<noteq> [] \<or> imageData st \<noteq> None)"

subsection \<open>Decimal rendering of a length inside a template literal\<close>

fun string_of_nat :: "nat \<Rightarrow> string" where
  "string_of_nat n =
     (if n < 10 then [''0123456789'' ! n]
      else string_of_nat (n div 10) @ [''0123456789'' ! (n mod 10)])"

declare string_of_nat.simps [simp del]

subsection \<open>The stage script\<close>

text \<open>
  \<^verbatim>\<open>const dataName = imageData?.name || fileName || 'Pasted Content';\<close>
  \<^verbatim>\<open>const dataSize = imageData ? 'Image Data'
      : `${fileContent?.length || pastedContent.length} chars`;\<close>
\<close>

definition dataName :: "app \<Rightarrow> string" where
  "dataName st =
     (if (case imageData st of None \<Rightarrow> False | Some im \<Rightarrow> name im \<noteq> [])
      then name (the (imageData st))
      else if truthy_str (fileName st) then the (fileName st)
      else ''Pasted Content'')"

definition dataSize :: "app \<Rightarrow> string" where
  "dataSize st =
     (case imageData st of
        Some im \<Rightarrow> ''Image Data''
      | None \<Rightarrow>
          string_of_nat
            (case fileContent st of
               None \<Rightarrow> length (pastedContent st)
             | Some t \<Rightarrow> if length t \<noteq> 0 then length t else length (pastedContent st))
          @ '' chars'')"

definition steps :: "app \<Rightarrow> step list" where
  "steps st =
     [ \<lparr>msg = ''INITIALIZING PHANTOM_V RUNTIME'', delay = 1000, status_step = Info\<rparr>,
       \<lparr>msg = ''PROCESSING DATA: '' @ dataName st, delay = 1000, status_step = Info\<rparr>,
       \<lparr>msg = ''ESTABLISHING SECURE CONNECTION'', delay = 1500, status_step = Info\<rparr>,
       \<lparr>msg = ''ANALYZING DATA STRUCTURE'', delay = 1200, status_step = Info\<rparr>,
       \<lparr>msg = ''ATTEMPTING KERNEL-LEVEL SYNC'', delay = 2000, status_step = Info\<rparr>,
       \<lparr>msg = ''SYNC FAILED: ACCESS RESTRICTED.'', delay = 800, status_step = Error\<rparr>,
       \<lparr>msg = ''FALLBACK TO PAYLOAD INJECTION'', delay = 1500, status_step = Info\<rparr>,
       \<lparr>msg = ''SUCCESS: '' @ dataSize st @ '' SYNCED.'', delay = 1000, status_step = Success\<rparr>,
       \<lparr>msg = ''SYNC COMPLETE. STANDBY.'', delay = 500, status_step = Success\<rparr> ]"

subsection \<open>The Log Store operations\<close>

text \<open>
  \<^verbatim>\<open>const addLog = (message, status) => {
    const newLog = { id: Date.now() + Math.random(), message, status };
    setLogs(prevLogs => [...prevLogs, newLog]); };\<close>
\<close>

definition addLog :: "world \<Rightarrow> nat \<Rightarrow> string \<Rightarrow> LogStatus \<Rightarrow> app \<Rightarrow> app" where
  "addLog w k m s st =
     st\<lparr>logs := logs st @ [\<lparr>id_log = newId w k, message = m, status = s\<rparr>]\<rparr>"

text \<open>
  \<^verbatim>\<open>currentLogs.map(l => l.id === pendingLog.id ? {...l, status: step.status} : l)\<close>
\<close>

definition setStatus :: "real \<Rightarrow> LogStatus \<Rightarrow> LogEntry list \<Rightarrow> LogEntry list" where
  "setStatus pid s currentLogs =
     map (\<lambda>l. if id_log l = pid then l\<lparr>status := s\<rparr> else l) currentLogs"

subsection \<open>The stage loop\<close>

text \<open>
  The body of \<^verbatim>\<open>for (const step of steps)\<close>. The result lists, in order, every array
  handed to \<open>setLogs\<close>: after the push of the pending entry (followed by
  \<open>await sleep(200)\<close>) and after the status replacement (followed by
  \<open>await sleep(step.delay)\<close>). The argument \<open>k\<close> counts the identifiers drawn so far and
  \<open>currentLogs\<close> is the local variable of that name.
\<close>

fun run_steps :: "world \<Rightarrow> nat \<Rightarrow> step list \<Rightarrow> LogEntry list \<Rightarrow> LogEntry list list" where
  "run_steps w k [] currentLogs = []"
| "run_steps w k (s # ss) currentLogs =
     (let pendingLog = \<lparr>id_log = newId w k, message = msg s, status = Pending\<rparr>;
          pushed = currentLogs @ [pendingLog];
          replaced = setStatus (id_log pendingLog) (status_step s) pushed
      in pushed # replaced # run_steps w (Suc k) ss replaced)"

text \<open>The value of \<open>currentLogs\<close> when the loop is left.\<close>

definition final_logs :: "world \<Rightarrow> nat \<Rightarrow> step list \<Rightarrow> LogEntry list \<Rightarrow> LogEntry list" where
  "final_logs w k ss currentLogs = last (currentLogs # run_steps w k ss currentLogs)"

subsection \<open>The run trigger\<close>

text \<open>
  \<open>handleStartSync\<close>. The result is the sequence of component states, one for each
  suspension point (\<open>await\<close>) of the handler and a last one for its return. The state
  updates made between two suspension points are committed together. A rejected call
  returns at once: its only state is the state it was called in.
\<close>

definition handleStartSync :: "world \<Rightarrow> app \<Rightarrow> app list" where
  "handleStartSync w st =
     (if isSyncing st \<or>
         (\<not> truthy_str (fileContent st) \<and> pastedContent st = [] \<and> imageData st = None)
      then [st]
      else
        let started = st\<lparr>isSyncing := True, syncCompleted := False, logs := []\<rparr>;
            script = steps st;
            suspended = map (\<lambda>l. started\<lparr>logs := l\<rparr>) (run_steps w 0 script []);
            looped = started\<lparr>logs := final_logs w 0 script []\<rparr>;
            completed = looped\<lparr>syncCompleted := True\<rparr>;
            logged =
              (if isSessionPersistent st
               then addLog w (length script) ''SESSION PERSISTENCE ENABLED.'' Info completed
               else addLog w (length script)
                      ''SESSION PERSISTENCE DISABLED. CLEARING INPUT ON NEXT ACTION.'' Info completed)
        in suspended @ [logged\<lparr>isSyncing := False\<rparr>])"

section \<open>Analysis Client (components/DataAnalyzer.tsx)\<close>

text \<open>
  A value produced by \<open>JSON.parse\<close>. \<open>JNull\<close> also stands for the \<open>null\<close> held by the
  \<open>analysis\<close> state before any result. The list of a \<open>JObj\<close> holds the own properties of
  the parsed object; a property is read from its first binding.
\<close>

datatype json =
    JNull
  | JBool bool
  | JNum real
  | JStr string
  | JArr "json list"
  | JObj "(string \<times> json) list"

text \<open>Truthiness of a parsed value: \<open>null\<close>, \<open>false\<close>, \<open>0\<close> and \<open>""\<close> are falsy.\<close>

fun truthy :: "json \<Rightarrow> bool" where
  "truthy JNull = False"
| "truthy (JBool b) = b"
| "truthy (JNum x) = (x \<noteq> 0)"
| "truthy (JStr s) = (s \<noteq> [])"
| "truthy (JArr xs) = True"
| "truthy (JObj fs) = True"

text \<open>
  Reading a property of a non-null parsed value; \<open>None\<close> is \<open>undefined\<close>. It is used for
  the names \<open>description\<close>, \<open>tags\<close>, \<open>anomaly\<close>, \<open>dataType\<close>, \<open>summary\<close>, \<open>risks\<close> and \<open>sha\<close>:
  booleans, numbers, strings and arrays have no property of these names.
\<close>

fun get_field :: "json \<Rightarrow> string \<Rightarrow> json option" where
  "get_field (JObj fs) k = map_of fs k"
| "get_field v k = None"

text \<open>\<^verbatim>\<open>typeof v === 'string'\<close> and \<^verbatim>\<open>Array.isArray(v)\<close> on a property that was read.\<close>

fun is_string :: "json option \<Rightarrow> bool" where
  "is_string (Some (JStr s)) = True"
| "is_string v = False"

fun is_array :: "json option \<Rightarrow> bool" where
  "is_array (Some (JArr xs)) = True"
| "is_array v = False"

text \<open>
  \<^verbatim>\<open>function isImageAnalysis(result: any): result is ImageAnalysisResult {
    return result && typeof result.description === 'string' && Array.isArray(result.tags); }\<close>
  The model is the truthiness of the returned value.
\<close>

definition isImageAnalysis :: "json \<Rightarrow> bool" where
  "isImageAnalysis result =
     (truthy result \<and> is_string (get_field result ''description'')
        \<and> is_array (get_field result ''tags''))"

subsection \<open>The two requests\<close>

datatype schema =
    STRING "string option"
  | ARRAY "string option" schema
  | OBJECT "(string \<times> schema) list" "string list"

datatype part = TextPart string | InlineData string string

datatype contents = Parts "part list" | Prompt string

record request =
  model :: string
  contents :: contents
  systemInstruction :: "string option"
  responseMimeType :: string
  responseSchema :: schema

definition imageSchema :: schema where
  \<open>imageSchema =
     OBJECT
       [ (''description'',
            STRING (Some ''A concise, one-sentence description of the image in a cyberpunk tone.'')),
         (''tags'',
            ARRAY (Some ''Up to 5 relevant keywords or tags identifying objects and themes in the image.'')
              (STRING None)),
         (''anomaly'',
            STRING (Some ''A potential anomaly or point of interest found in the image. If none, state "None detected".'')) ]
       [''description'', ''tags'', ''anomaly'']\<close>

definition textSchema :: schema where
  \<open>textSchema =
     OBJECT
       [ (''dataType'',
            STRING (Some ''The type of data, e.g., JSON, JavaScript Code, Text Log, Article.'')),
         (''summary'',
            STRING (Some ''A concise, one-sentence summary of the content in a cyberpunk tone.'')),
         (''risks'',
            ARRAY (Some ''Up to 3 potential security keywords or notable patterns found (e.g., "API Key", "Password", "Private Data").'')
              (STRING None)) ]
       [''dataType'', ''summary'', ''risks'']\<close>

definition imageRequest :: "image \<Rightarrow> request" where
  \<open>imageRequest im =
     \<lparr> model = ''gemini-2.5-flash'',
       contents =
         Parts
           [ TextPart ''You are PhantomV, a futuristic AI data analyst. Your analysis should be concise and adopt a cyberpunk, high-tech tone. Analyze the provided image and generate a response. Describe the visual content, identify up to 5 relevant tags, and point out one potential anomaly or point of interest. If no anomaly is found, state 'None detected'.'',
             InlineData (mimeType im) (base64 im) ],
       systemInstruction = None,
       responseMimeType = ''application/json'',
       responseSchema = imageSchema \<rparr>\<close>

definition textRequest :: "string \<Rightarrow> request" where
  \<open>textRequest textContent =
     \<lparr> model = ''gemini-2.5-flash'',
       contents =
         Prompt (''Analyze the following data payload. Data: '' @ [CHR 0x0A, CHR 0x0A] @ textContent),
       systemInstruction =
         Some ''You are PhantomV, a futuristic AI data analyst. Your analysis should be concise and adopt a cyberpunk, high-tech tone. Identify the data type (e.g., JSON, JavaScript, Text Log), provide a one-sentence summary, and list up to 3 potential security keywords or notable patterns.'',
       responseMimeType = ''application/json'',
       responseSchema = textSchema \<rparr>\<close>

subsection \<open>The analysis handler\<close>

text \<open>The \<open>useState\<close> cells of \<open>DataAnalyzer\<close>.\<close>

record analyzer =
  isLoading :: bool
  analysis :: json
  error :: "string option"

text \<open>
  What \<^verbatim>\<open>await ai.models.generateContent(...)\<close> does: it rejects on a network failure
  or on a transport status that is not a success, or it resolves with a response whose
  \<open>text\<close> is a string or \<open>undefined\<close>.
\<close>

datatype outcome = NetworkFailure | HttpError nat | Response "string option"

definition failureMessage :: string where
  "failureMessage = ''Analysis failed. The AI core might be offline or the data payload is corrupted.''"

text \<open>
  \<open>handleAnalyze\<close>. The arguments \<open>generateContent\<close> and \<open>JSON_parse\<close> are the two library
  functions the handler calls (\<open>JSON_parse\<close> gives \<open>None\<close> where \<open>JSON.parse\<close> raises
  \<open>SyntaxError\<close>); \<open>textContent\<close> and \<open>imageProp\<close> are the props of the component. The
  result pairs the component states, one for the suspension point (when a request is
  awaited) and a last one for the return, with the requests issued. \<open>JSON.parse\<close> converts
  its argument to a string first, so an \<open>undefined\<close> text is parsed as \<open>"undefined"\<close>.
  The construction of the client (\<^verbatim>\<open>new GoogleGenAI(...)\<close>) is taken to succeed.
\<close>

definition handleAnalyze ::
  "(request \<Rightarrow> outcome) \<Rightarrow> (string \<Rightarrow> json option) \<Rightarrow> string option \<Rightarrow> image option
     \<Rightarrow> analyzer \<Rightarrow> analyzer list \<times> request list" where
  "handleAnalyze generateContent JSON_parse textContent imageProp st =
     (let loading = st\<lparr>isLoading := True, error := None, analysis := JNull\<rparr>;
          failed = loading\<lparr>error := Some failureMessage, isLoading := False\<rparr>;
          chosen =
            (case imageProp of
               Some im \<Rightarrow> Some (imageRequest im)
             | None \<Rightarrow>
                 if truthy_str textContent then Some (textRequest (the textContent)) else None)
      in case chosen of
           None \<Rightarrow> ([failed], [])
         | Some req \<Rightarrow>
             (case generateContent req of
                Response text \<Rightarrow>
                  (case JSON_parse (case text of None \<Rightarrow> ''undefined'' | Some t \<Rightarrow> t) of
                     Some resultJson \<Rightarrow>
                       ([loading, loading\<lparr>analysis := resultJson, isLoading := False\<rparr>], [req])
                   | None \<Rightarrow> ([loading, failed], [req]))
              | NetworkFailure \<Rightarrow> ([loading, failed], [req])
              | HttpError code \<Rightarrow> ([loading, failed], [req])))"

text \<open>
  What \<open>renderContent\<close> returns: the panel, with the values it hands to React as children,
  or the \<open>TypeError\<close> raised while the panel is built. The image panel holds
  \<open>analysis.description\<close>, the elements \<open>analysis.tags.map\<close> runs over and
  \<open>analysis.anomaly\<close>; the text panel holds \<open>textAnalysis.dataType\<close>,
  \<open>textAnalysis.summary\<close> and either the elements \<open>textAnalysis.risks.map\<close> runs over or
  the paragraph shown in their place. Class names and icons are left out.
\<close>

datatype risks_view = RiskList "json list" | NoThreats

datatype view =
    Spinner
  | ErrorPanel string
  | ImagePanel "json option" "json list" "json option"
  | TextPanel "json option" "json option" risks_view
  | EmptyPanel
  | StartPanel string
  | TypeError

text \<open>
  \<^verbatim>\<open>textAnalysis.risks.length > 0 ? (<ul>{textAnalysis.risks.map(...)}</ul>) : <p>...</p>\<close>
  on the value read from \<open>risks\<close>; \<open>None\<close> is a \<open>TypeError\<close>. Reading \<open>length\<close> of
  \<open>undefined\<close> or \<open>null\<close> raises. A boolean or a number has no \<open>length\<close>, and
  \<open>undefined > 0\<close> is false. A non-empty string has a positive \<open>length\<close> and no \<open>map\<close>, so
  the call raises. An object has the \<open>length\<close> it holds, if any, and no callable \<open>map\<close>
  (a parsed value holds no function): the argument \<open>positive\<close> tells, for a parsed value
  \<open>v\<close>, whether the JavaScript comparison \<open>v > 0\<close> is true or raises, and then the
  panel raises.
\<close>

fun draw_risks :: "(json \<Rightarrow> bool) \<Rightarrow> json option \<Rightarrow> risks_view option" where
  "draw_risks positive None = None"
| "draw_risks positive (Some JNull) = None"
| "draw_risks positive (Some (JBool b)) = Some NoThreats"
| "draw_risks positive (Some (JNum x)) = Some NoThreats"
| "draw_risks positive (Some (JStr s)) = (if s \<noteq> [] then None else Some NoThreats)"
| "draw_risks positive (Some (JArr xs)) = (if xs \<noteq> [] then Some (RiskList xs) else Some NoThreats)"
| "draw_risks positive (Some (JObj fs)) =
     (case map_of fs ''length'' of
        None \<Rightarrow> Some NoThreats
      | Some v \<Rightarrow> if positive v then None else Some NoThreats)"

text \<open>\<open>renderContent\<close>, with the component's props and state.\<close>

definition renderContent :: "(json \<Rightarrow> bool) \<Rightarrow> image option \<Rightarrow> analyzer \<Rightarrow> view" where
  "renderContent positive imageProp st =
     (if isLoading st then Spinner
      else if truthy_str (error st) then ErrorPanel (the (error st))
      else if truthy (analysis st) then
        (let isImgAnalysis = isImageAnalysis (analysis st);
             textAnalysis = (if isImgAnalysis then JNull else analysis st)
         in if isImgAnalysis then
              (case get_field (analysis st) ''tags'' of
                 Some (JArr tags) \<Rightarrow>
                   ImagePanel (get_field (analysis st) ''description'') tags
                     (get_field (analysis st) ''anomaly'')
               | _ \<Rightarrow> TypeError)
            else if truthy textAnalysis then
              (case draw_risks positive (get_field textAnalysis ''risks'') of
                 None \<Rightarrow> TypeError
               | Some drawn \<Rightarrow>
                   TextPanel (get_field textAnalysis ''dataType'')
                     (get_field textAnalysis ''summary'') drawn)
            else EmptyPanel)
      else StartPanel (if imageProp \<noteq> None then ''Analyze Image'' else ''Initiate Analysis''))"

text \<open>
  The props \<open>App\<close> passes: \<^verbatim>\<open>textContent={fileContent || pastedContent}\<close> and
  \<^verbatim>\<open>imageData={imageData}\<close>.
\<close>

definition textContent_of :: "app \<Rightarrow> string option" where
  "textContent_of st =
     (if truthy_str (fileContent st) then fileContent st else Some (pastedContent st))"

section \<open>Update check (App.tsx)\<close>

text \<open>
  What the request of \<open>checkForUpdates\<close> yields: \<open>fetch\<close> rejects; the response is not
  \<open>ok\<close> (with its status); \<open>response.json()\<close> rejects because the body is not JSON; or the
  body parses to a value.
\<close>

datatype fetched = FetchRejected | NotOk nat | NotJson | Body json

text \<open>
  What a check does besides changing the state: calls of \<open>setShowUpdateModal\<close>, of
  \<open>audioRef.current.play\<close> and of \<open>console.error\<close> from the \<open>catch\<close> block, in order.
\<close>

datatype effect = SetShowUpdateModal bool | AudioPlay | ConsoleError

text \<open>\<^verbatim>\<open>snoozeUntil && Date.now() < snoozeUntil\<close>: a number is truthy when it is not 0.\<close>

definition snoozed :: "int \<Rightarrow> app \<Rightarrow> bool" where
  "snoozed now st = (case snoozeUntil st of None \<Rightarrow> False | Some u \<Rightarrow> u \<noteq> 0 \<and> now < u)"

text \<open>
  The part of \<open>checkForUpdates\<close> that runs after \<^verbatim>\<open>await fetch(...)\<close> and
  \<^verbatim>\<open>await response.json()\<close>, on the component state and the \<open>currentCommitSha\<close> item of
  \<open>sessionStorage\<close> (\<open>None\<close> when absent) as they are at that moment; \<open>audio\<close> tells whether
  \<open>audioRef.current\<close> is set. Reading \<open>sha\<close> of \<open>null\<close> raises, and every exception ends in
  the \<open>catch\<close> block. \<open>setItem\<close> stores the string conversion of its argument: \<open>toString\<close>
  is that conversion on a parsed value that is not a string. \<open>!==\<close> between the stored
  string and a value that is not a string is true.
\<close>

definition checkForUpdates_resume ::
  "(json \<Rightarrow> string) \<Rightarrow> fetched \<Rightarrow> bool \<Rightarrow> app \<times> string option
     \<Rightarrow> (app \<times> string option) \<times> effect list" where
  "checkForUpdates_resume toString res audio c =
     (let st = fst c; currentCommitSha = snd c in
      case res of
        FetchRejected \<Rightarrow> (c, [ConsoleError])
      | NotOk code \<Rightarrow> (c, [ConsoleError])
      | NotJson \<Rightarrow> (c, [ConsoleError])
      | Body latestCommit \<Rightarrow>
          if latestCommit = JNull then (c, [ConsoleError])
          else
            let latestCommitSha = get_field latestCommit ''sha'' in
            if \<not> truthy_str currentCommitSha then
              ((st, Some (case latestCommitSha of
                             None \<Rightarrow> ''undefined''
                           | Some (JStr sha) \<Rightarrow> sha
                           | Some v \<Rightarrow> toString v)), [])
            else if (case latestCommitSha of
                       Some (JStr sha) \<Rightarrow> currentCommitSha \<noteq> Some sha
                     | _ \<Rightarrow> True) then
              ((st\<lparr>showUpdateModal := True\<rparr>, currentCommitSha),
               SetShowUpdateModal True # (if audio then [AudioPlay] else []))
            else (c, []))"

text \<open>
  \<open>checkForUpdates\<close>. The guard is tested once, when the check starts: \<open>now\<close> is the reading
  of \<open>Date.now()\<close> and \<open>started\<close> the component state at that moment. When the guard lets the
  check through, the request is awaited, and the rest runs on \<open>c\<close>, the state and the
  storage as they are when the response has been read: a handler that ran in between has
  changed them. For a check that nothing interleaves with, \<open>c\<close> holds \<open>started\<close>.
\<close>

definition checkForUpdates ::
  "(json \<Rightarrow> string) \<Rightarrow> int \<Rightarrow> app \<Rightarrow> fetched \<Rightarrow> bool \<Rightarrow> app \<times> string option
     \<Rightarrow> (app \<times> string option) \<times> effect list" where
  "checkForUpdates toString now started res audio c =
     (if snoozed now started then (c, [])
      else checkForUpdates_resume toString res audio c)"

text \<open>
  \<^verbatim>\<open>const handleSnooze = (minutes: number) => {
    setSnoozeUntil(Date.now() + minutes * 60 * 1000);
    setShowUpdateModal(false); };\<close>
\<close>

definition handleSnooze :: "int \<Rightarrow> int \<Rightarrow> app \<Rightarrow> app" where
  "handleSnooze now minutes st =
     st\<lparr>snoozeUntil := Some (now + minutes * 60 * 1000), showUpdateModal := False\<rparr>"

section \<open>Reference values for the statements\<close>

text \<open>
  The entries a script prescribes, with identifiers drawn from \<open>k\<close> on: the \<open>j\<close>-th stage
  gives one entry with the stage's message and the stage's status.
\<close>

fun scripted :: "world \<Rightarrow> nat \<Rightarrow> step list \<Rightarrow> LogEntry list" where
  "scripted w k [] = []"
| "scripted w k (s # ss) =
     \<lparr>id_log = newId w k, message = msg s, status = status_step s\<rparr> # scripted w (Suc k) ss"

section \<open>Properties of the stage loop\<close>

lemma run_steps_length: "length (run_steps w k ss cur) = 2 * length ss"
  by (induction ss arbitrary: k cur) (simp_all add: Let_def)

lemma setStatus_length: "length (setStatus pid s xs) = length xs"
  by (simp add: setStatus_def)

lemma setStatus_message: "map message (setStatus pid s xs) = map message xs"
  by (induction xs) (simp_all add: setStatus_def)

lemma setStatus_id: "map id_log (setStatus pid s xs) = map id_log xs"
  by (induction xs) (simp_all add: setStatus_def)

lemma setStatus_other:
  "i < length xs \<Longrightarrow> id_log (xs ! i) \<noteq> pid \<Longrightarrow> setStatus pid s xs ! i = xs ! i"
  by (simp add: setStatus_def)

lemma setStatus_match:
  "i < length xs \<Longrightarrow> id_log (xs ! i) = pid \<Longrightarrow> setStatus pid s xs ! i = (xs ! i)\<lparr>status := s\<rparr>"
  by (simp add: setStatus_def)

lemma setStatus_fresh: "pid \<notin> id_log ` set xs \<Longrightarrow> setStatus pid s xs = xs"
  by (induction xs) (auto simp: setStatus_def)

lemma setStatus_append: "setStatus pid s (xs @ ys) = setStatus pid s xs @ setStatus pid s ys"
  by (simp add: setStatus_def)

lemma setStatus_pending:
  "pid \<notin> id_log ` set xs \<Longrightarrow>
   setStatus pid s (xs @ [\<lparr>id_log = pid, message = m, status = Pending\<rparr>])
     = xs @ [\<lparr>id_log = pid, message = m, status = s\<rparr>]"
  by (simp add: setStatus_append setStatus_fresh) (simp add: setStatus_def)

lemma final_logs_Nil: "final_logs w k [] cur = cur"
  by (simp add: final_logs_def)

lemma final_logs_Cons:
  "final_logs w k (s # ss) cur =
     final_logs w (Suc k) ss
       (setStatus (newId w k) (status_step s)
          (cur @ [\<lparr>id_log = newId w k, message = msg s, status = Pending\<rparr>]))"
  by (simp add: final_logs_def Let_def)

lemma final_logs_message:
  "map message (final_logs w k ss cur) = map message cur @ map msg ss"
  by (induction ss arbitrary: k cur) (simp_all add: final_logs_Nil final_logs_Cons setStatus_message)

lemma upt_first: "[k..<k + Suc n] = k # [Suc k..<Suc k + n]"
  by (subst upt_rec) simp

lemma final_logs_id:
  "map id_log (final_logs w k ss cur) = map id_log cur @ map (newId w) [k..<k + length ss]"
proof (induction ss arbitrary: k cur)
  case Nil
  then show ?case by (simp add: final_logs_Nil)
next
  case (Cons s ss)
  have "[k..<k + length (s # ss)] = k # [Suc k..<Suc k + length ss]"
    using upt_first [of k "length ss"] by simp
  then show ?case
    by (simp add: final_logs_Cons Cons.IH setStatus_id del: upt_Suc)
qed

lemma setStatus_terminal:
  "s \<noteq> Pending \<Longrightarrow> \<forall>e\<in>set xs. status e \<noteq> Pending \<Longrightarrow>
   \<forall>e\<in>set (setStatus pid s (xs @ [\<lparr>id_log = pid, message = m, status = Pending\<rparr>])). status e \<noteq> Pending"
  by (auto simp: setStatus_def)

lemma final_logs_terminal:
  "\<forall>s\<in>set ss. status_step s \<noteq> Pending \<Longrightarrow> \<forall>e\<in>set cur. status e \<noteq> Pending \<Longrightarrow>
   \<forall>e\<in>set (final_logs w k ss cur). status e \<noteq> Pending"
proof (induction ss arbitrary: k cur)
  case Nil
  then show ?case by (simp add: final_logs_Nil)
next
  case (Cons s ss)
  from Cons.prems have s: "status_step s \<noteq> Pending" and rest: "\<forall>s\<in>set ss. status_step s \<noteq> Pending"
    by simp_all
  have "\<forall>e\<in>set (setStatus (newId w k) (status_step s)
          (cur @ [\<lparr>id_log = newId w k, message = msg s, status = Pending\<rparr>])). status e \<noteq> Pending"
    using s Cons.prems(2) by (rule setStatus_terminal)
  with rest show ?case
    unfolding final_logs_Cons by (rule Cons.IH)
qed

lemma final_logs_last:
  "ss \<noteq> [] \<Longrightarrow> status (last (final_logs w k ss cur)) = status_step (last ss)"
proof (induction ss arbitrary: k cur)
  case Nil
  then show ?case by simp
next
  case (Cons s ss)
  show ?case
  proof (cases ss)
    case Nil
    then show ?thesis
      by (simp add: final_logs_Cons final_logs_Nil setStatus_def)
  next
    case (Cons t ts)
    then have "ss \<noteq> []" by simp
    then show ?thesis
      using Cons.IH by (simp add: final_logs_Cons)
  qed
qed

lemma final_logs_scripted:
  "distinct (map (newId w) [k..<k + length ss]) \<Longrightarrow>
   \<forall>i\<in>{k..<k + length ss}. newId w i \<notin> id_log ` set cur \<Longrightarrow>
   final_logs w k ss cur = cur @ scripted w k ss"
proof (induction ss arbitrary: k cur)
  case Nil
  then show ?case by (simp add: final_logs_Nil)
next
  case (Cons s ss)
  let ?e = "\<lparr>id_log = newId w k, message = msg s, status = status_step s\<rparr>"
  have up: "[k..<k + length (s # ss)] = k # [Suc k..<Suc k + length ss]"
    using upt_first [of k "length ss"] by simp
  from Cons.prems(2) have fresh: "newId w k \<notin> id_log ` set cur" by simp
  have dd: "distinct (newId w k # map (newId w) [Suc k..<Suc k + length ss])"
    using Cons.prems(1) unfolding up by (simp only: list.map)
  have d: "distinct (map (newId w) [Suc k..<Suc k + length ss])"
    by (rule conjunct2 [OF iffD1 [OF distinct.simps(2) dd]])
  have "newId w k \<notin> set (map (newId w) [Suc k..<Suc k + length ss])"
    by (rule conjunct1 [OF iffD1 [OF distinct.simps(2) dd]])
  then have "newId w k \<notin> newId w ` {Suc k..<Suc k + length ss}"
    unfolding set_map set_upt .
  then have nk: "\<forall>i\<in>{Suc k..<Suc k + length ss}. newId w i \<noteq> newId w k"
    by (metis imageI)
  have f: "\<forall>i\<in>{Suc k..<Suc k + length ss}. newId w i \<notin> id_log ` set (cur @ [?e])"
    using Cons.prems(2) nk by auto
  have "final_logs w k (s # ss) cur = final_logs w (Suc k) ss (cur @ [?e])"
    by (simp add: final_logs_Cons setStatus_pending [OF fresh])
  also have "\<dots> = (cur @ [?e]) @ scripted w (Suc k) ss"
    using d f by (rule Cons.IH)
  finally show ?case by simp
qed

lemma scripted_status: "map status (scripted w k ss) = map status_step ss"
  by (induction ss arbitrary: k) simp_all


lemma scripted_message: "map message (scripted w k ss) = map msg ss"
  by (induction ss arbitrary: k) simp_all

lemma scripted_length: "length (scripted w k ss) = length ss"
  by (induction ss arbitrary: k) simp_all

lemma scripted_nth:
  "j < length ss \<Longrightarrow>
   scripted w k ss ! j = \<lparr>id_log = newId w (k + j), message = msg (ss ! j), status = status_step (ss ! j)\<rparr>"
proof (induction ss arbitrary: k j)
  case Nil
  then show ?case by simp
next
  case (Cons s ss)
  then show ?case by (cases j) simp_all
qed

lemma run_steps_nth:
  "distinct (map (newId w) [k..<k + length ss]) \<Longrightarrow>
   \<forall>i\<in>{k..<k + length ss}. newId w i \<notin> id_log ` set cur \<Longrightarrow>
   j < length ss \<Longrightarrow>
   run_steps w k ss cur ! (2 * j) =
       cur @ scripted w k (take j ss) @
         [\<lparr>id_log = newId w (k + j), message = msg (ss ! j), status = Pending\<rparr>]
     \<and> run_steps w k ss cur ! Suc (2 * j) = cur @ scripted w k (take (Suc j) ss)"
proof (induction ss arbitrary: k cur j)
  case Nil
  then show ?case by simp
next
  case (Cons s ss)
  let ?e = "\<lparr>id_log = newId w k, message = msg s, status = status_step s\<rparr>"
  let ?p = "\<lparr>id_log = newId w k, message = msg s, status = Pending\<rparr>"
  have up: "[k..<k + length (s # ss)] = k # [Suc k..<Suc k + length ss]"
    using upt_first [of k "length ss"] by simp
  from Cons.prems(2) have fresh: "newId w k \<notin> id_log ` set cur" by simp
  have dd: "distinct (newId w k # map (newId w) [Suc k..<Suc k + length ss])"
    using Cons.prems(1) unfolding up by (simp only: list.map)
  have d: "distinct (map (newId w) [Suc k..<Suc k + length ss])"
    by (rule conjunct2 [OF iffD1 [OF distinct.simps(2) dd]])
  have "newId w k \<notin> set (map (newId w) [Suc k..<Suc k + length ss])"
    by (rule conjunct1 [OF iffD1 [OF distinct.simps(2) dd]])
  then have "newId w k \<notin> newId w ` {Suc k..<Suc k + length ss}"
    unfolding set_map set_upt .
  then have nk: "\<forall>i\<in>{Suc k..<Suc k + length ss}. newId w i \<noteq> newId w k"
    by (metis imageI)
  have f: "\<forall>i\<in>{Suc k..<Suc k + length ss}. newId w i \<notin> id_log ` set (cur @ [?e])"
    using Cons.prems(2) nk by auto
  have rep: "setStatus (newId w k) (status_step s) (cur @ [?p]) = cur @ [?e]"
    by (rule setStatus_pending [OF fresh])
  have unfold: "run_steps w k (s # ss) cur =
      (cur @ [?p]) # (cur @ [?e]) # run_steps w (Suc k) ss (cur @ [?e])"
    by (simp add: Let_def rep)
  show ?case
  proof (cases j)
    case 0
    then show ?thesis by (simp add: unfold del: run_steps.simps)
  next
    case (Suc j')
    with Cons.prems(3) have j': "j' < length ss" by simp
    have "run_steps w (Suc k) ss (cur @ [?e]) ! (2 * j') =
           (cur @ [?e]) @ scripted w (Suc k) (take j' ss) @
             [\<lparr>id_log = newId w (Suc k + j'), message = msg (ss ! j'), status = Pending\<rparr>]
        \<and> run_steps w (Suc k) ss (cur @ [?e]) ! Suc (2 * j') =
           (cur @ [?e]) @ scripted w (Suc k) (take (Suc j') ss)"
      using d f j' by (rule Cons.IH)
    then show ?thesis
      by (simp add: unfold Suc del: run_steps.simps)
  qed
qed

section \<open>Properties of the run trigger\<close>

lemma handleStartSync_rejected:
  "isSyncing st \<or> \<not> hasData st \<Longrightarrow> handleStartSync w st = [st]"
  by (auto simp: handleStartSync_def hasData_def)

lemma steps_length: "length (steps st) = 9"
  by (simp add: steps_def)

lemma steps_status:
  "map status_step (steps st) = [Info, Info, Info, Info, Info, Error, Info, Success, Success]"
  by (simp add: steps_def)

lemma steps_terminal: "\<forall>s\<in>set (steps st). status_step s \<noteq> Pending"
  by (simp add: steps_def)


lemma handleStartSync_accepted:
  assumes "\<not> isSyncing st" and "hasData st"
  shows "handleStartSync w st =
           map (\<lambda>l. st\<lparr>isSyncing := True, syncCompleted := False, logs := l\<rparr>)
             (run_steps w 0 (steps st) []) @
           [st\<lparr>isSyncing := False, syncCompleted := True,
               logs := final_logs w 0 (steps st) [] @
                 [\<lparr>id_log = newId w 9, message =
                     (if isSessionPersistent st then ''SESSION PERSISTENCE ENABLED.''
                      else ''SESSION PERSISTENCE DISABLED. CLEARING INPUT ON NEXT ACTION.''), status = Info\<rparr>]\<rparr>]"
proof -
  have nr: "\<not> (isSyncing st \<or>
      (\<not> truthy_str (fileContent st) \<and> pastedContent st = [] \<and> imageData st = None))"
    using assms by (auto simp: hasData_def)
  show ?thesis
    unfolding handleStartSync_def if_not_P [OF nr]
    by (simp add: Let_def addLog_def steps_length)
qed

lemma handleStartSync_last_logs:
  assumes "\<not> isSyncing st" and "hasData st"
  shows "logs (last (handleStartSync w st)) =
           final_logs w 0 (steps st) [] @ [\<lparr>id_log = newId w 9, message =
                     (if isSessionPersistent st then ''SESSION PERSISTENCE ENABLED.''
                      else ''SESSION PERSISTENCE DISABLED. CLEARING INPUT ON NEXT ACTION.''), status = Info\<rparr>]"
  by (simp add: handleStartSync_accepted [OF assms])

lemma final_logs_length: "length (final_logs w k ss cur) = length cur + length ss"
  using final_logs_message [of w k ss cur, THEN arg_cong, of length] by simp


lemma handleStartSync_suspended:
  assumes "\<not> isSyncing st" and "hasData st"
  shows "butlast (handleStartSync w st) =
           map (\<lambda>l. st\<lparr>isSyncing := True, syncCompleted := False, logs := l\<rparr>)
             (run_steps w 0 (steps st) [])"
  by (simp add: handleStartSync_accepted [OF assms] butlast_append)

lemma run_steps_pair:
  "j < length ss \<Longrightarrow>
   run_steps w k ss cur ! Suc (2 * j) =
     setStatus (newId w (k + j)) (status_step (ss ! j)) (run_steps w k ss cur ! (2 * j))"
proof (induction ss arbitrary: k cur j)
  case Nil
  then show ?case by simp
next
  case (Cons s ss)
  show ?case
  proof (cases j)
    case 0
    then show ?thesis by (simp add: Let_def)
  next
    case (Suc j')
    with Cons.prems have "j' < length ss" by simp
    from Cons.IH [OF this] show ?thesis
      by (simp add: Let_def Suc)
  qed
qed

lemma handleStartSync_nth_logs:
  assumes "\<not> isSyncing st" and "hasData st" and "n < 18"
  shows "logs (handleStartSync w st ! n) = run_steps w 0 (steps st) [] ! n"
  using assms(3)
  by (simp add: handleStartSync_accepted [OF assms(1,2)] nth_append run_steps_length steps_length)

lemma handleStartSync_even:
  assumes "\<not> isSyncing st" and "hasData st" and "distinct (map (newId w) [0..<9])" and "j < 9"
  shows "logs (handleStartSync w st ! (2 * j)) =
           scripted w 0 (take j (steps st)) @
             [\<lparr>id_log = newId w j, message = msg (steps st ! j), status = Pending\<rparr>]"
proof -
  have "run_steps w 0 (steps st) [] ! (2 * j) =
       [] @ scripted w 0 (take j (steps st)) @
         [\<lparr>id_log = newId w (0 + j), message = msg (steps st ! j), status = Pending\<rparr>]
     \<and> run_steps w 0 (steps st) [] ! Suc (2 * j) = [] @ scripted w 0 (take (Suc j) (steps st))"
    by (rule run_steps_nth) (simp_all add: steps_length assms(3,4) del: upt_Suc)
  moreover have "2 * j < 18" using assms(4) by simp
  ultimately show ?thesis
    by (simp add: handleStartSync_nth_logs [OF assms(1,2)])
qed

lemma handleStartSync_odd:
  assumes "\<not> isSyncing st" and "hasData st" and "distinct (map (newId w) [0..<9])" and "j < 9"
  shows "logs (handleStartSync w st ! Suc (2 * j)) = scripted w 0 (take (Suc j) (steps st))"
proof -
  have "run_steps w 0 (steps st) [] ! (2 * j) =
       [] @ scripted w 0 (take j (steps st)) @
         [\<lparr>id_log = newId w (0 + j), message = msg (steps st ! j), status = Pending\<rparr>]
     \<and> run_steps w 0 (steps st) [] ! Suc (2 * j) = [] @ scripted w 0 (take (Suc j) (steps st))"
    by (rule run_steps_nth) (simp_all add: steps_length assms(3,4) del: upt_Suc)
  moreover have "Suc (2 * j) < 18" using assms(4) by simp
  ultimately show ?thesis
    by (simp add: handleStartSync_nth_logs [OF assms(1,2)])
qed

lemma handleStartSync_final:
  assumes "\<not> isSyncing st" and "hasData st" and "distinct (map (newId w) [0..<9])"
  shows "logs (handleStartSync w st ! 18) =
           scripted w 0 (steps st) @
             [\<lparr>id_log = newId w 9,
               message = (if isSessionPersistent st then ''SESSION PERSISTENCE ENABLED.''
                          else ''SESSION PERSISTENCE DISABLED. CLEARING INPUT ON NEXT ACTION.''),
               status = Info\<rparr>]"
proof -
  have "final_logs w 0 (steps st) [] = [] @ scripted w 0 (steps st)"
    by (rule final_logs_scripted) (simp_all add: steps_length assms(3) del: upt_Suc)
  then show ?thesis
    by (simp add: handleStartSync_accepted [OF assms(1,2)] nth_append run_steps_length steps_length)
qed

lemma scripted_take_nth:
  "i < m \<Longrightarrow> m \<le> length ss \<Longrightarrow>
   scripted w 0 (take m ss) ! i =
     \<lparr>id_log = newId w i, message = msg (ss ! i), status = status_step (ss ! i)\<rparr>"
  using scripted_nth [of i "take m ss" w 0] by simp

lemma run_steps_even_shape:
  "j < length ss \<Longrightarrow>
   \<exists>pre. length pre = length cur + j
     \<and> run_steps w k ss cur ! (2 * j) =
         pre @ [\<lparr>id_log = newId w (k + j), message = msg (ss ! j), status = Pending\<rparr>]"
proof (induction ss arbitrary: k cur j)
  case Nil
  then show ?case by simp
next
  case (Cons s ss)
  show ?case
  proof (cases j)
    case 0
    then show ?thesis by (simp add: Let_def)
  next
    case (Suc j')
    with Cons.prems have "j' < length ss" by simp
    from Cons.IH [OF this, where k = "Suc k" and cur =
        "setStatus (newId w k) (status_step s)
           (cur @ [\<lparr>id_log = newId w k, message = msg s, status = Pending\<rparr>])"]
    show ?thesis
      by (simp add: Let_def Suc setStatus_length)
  qed
qed

lemma setStatus_own_entry:
  "setStatus pid s (pre @ [\<lparr>id_log = pid, message = m, status = Pending\<rparr>]) ! length pre =
     \<lparr>id_log = pid, message = m, status = s\<rparr>"
  by (simp add: setStatus_def nth_append)

lemma handleStartSync_length:
  assumes "\<not> isSyncing st" and "hasData st"
  shows "length (handleStartSync w st) = 19"
  by (simp add: handleStartSync_accepted [OF assms] run_steps_length steps_length)

lemma final_logs_is_last_snapshot:
  "ss \<noteq> [] \<Longrightarrow> final_logs w k ss cur = run_steps w k ss cur ! (2 * length ss - 1)"
proof -
  assume "ss \<noteq> []"
  then have ne: "run_steps w k ss cur \<noteq> []"
    using run_steps_length [of w k ss cur] by auto
  then have "final_logs w k ss cur = last (run_steps w k ss cur)"
    by (simp add: final_logs_def)
  also have "\<dots> = run_steps w k ss cur ! (length (run_steps w k ss cur) - 1)"
    using ne by (rule last_conv_nth)
  finally show ?thesis by (simp add: run_steps_length)
qed

lemma handleStartSync_trailing:
  assumes "\<not> isSyncing st" and "hasData st"
  shows "logs (handleStartSync w st ! 18) =
           logs (handleStartSync w st ! 17) @
             [\<lparr>id_log = newId w 9,
               message = (if isSessionPersistent st then ''SESSION PERSISTENCE ENABLED.''
                          else ''SESSION PERSISTENCE DISABLED. CLEARING INPUT ON NEXT ACTION.''),
               status = Info\<rparr>]"
proof -
  have "steps st \<noteq> []" by (simp add: steps_def)
  then have f: "final_logs w 0 (steps st) [] = run_steps w 0 (steps st) [] ! 17"
    using final_logs_is_last_snapshot [of "steps st" w 0 "[]"] by (simp add: steps_length)
  have a: "logs (handleStartSync w st ! 17) = run_steps w 0 (steps st) [] ! 17"
    by (rule handleStartSync_nth_logs [OF assms]) simp
  have b: "logs (handleStartSync w st ! 18) =
      final_logs w 0 (steps st) [] @
             [\<lparr>id_log = newId w 9,
               message = (if isSessionPersistent st then ''SESSION PERSISTENCE ENABLED.''
                          else ''SESSION PERSISTENCE DISABLED. CLEARING INPUT ON NEXT ACTION.''),
               status = Info\<rparr>]"
    by (simp add: handleStartSync_accepted [OF assms] nth_append run_steps_length steps_length)
  show ?thesis unfolding b a f ..
qed

lemma run_steps_skip:
  "run_steps w k (s # ss) cur ! Suc (Suc n) =
     run_steps w (Suc k) ss
       (setStatus (newId w k) (status_step s)
          (cur @ [\<lparr>id_log = newId w k, message = msg s, status = Pending\<rparr>])) ! n"
  by (simp add: Let_def)

lemma handleStartSync_last_suspended_length:
  assumes "\<not> isSyncing st" and "hasData st"
  shows "length (logs (handleStartSync w st ! 17)) = 9"
proof -
  have "length (logs (handleStartSync w st ! 18)) = 10"
    by (simp add: handleStartSync_accepted [OF assms] nth_append run_steps_length steps_length
          final_logs_length)
  then show ?thesis
    unfolding handleStartSync_trailing [OF assms] by simp
qed

lemma equal_ids_before_failure:
  "map status (run_steps \<lparr>id_drawn = \<lambda>k. 0\<rparr> 0 (steps st) [] ! 10) =
     [Info, Info, Info, Info, Info, Pending]"
proof -
  have n: "(10::nat) = Suc (Suc (Suc (Suc (Suc (Suc (Suc (Suc (Suc (Suc 0)))))))))"
    by simp
  show ?thesis
    unfolding steps_def n run_steps_skip
    by (simp add: Let_def setStatus_def newId_def)
qed

lemma equal_ids_after_failure:
  "map status (run_steps \<lparr>id_drawn = \<lambda>k. 0\<rparr> 0 (steps st) [] ! 11) =
     [Error, Error, Error, Error, Error, Error]"
proof -
  have n: "(11::nat) = Suc (Suc (Suc (Suc (Suc (Suc (Suc (Suc (Suc (Suc (Suc 0))))))))))"
    by simp
  show ?thesis
    unfolding steps_def n run_steps_skip
    by (simp add: Let_def setStatus_def newId_def)
qed

section \<open>Properties of the analysis handler and of the update check\<close>

lemma handleAnalyze_no_payload:
  "\<not> truthy_str textContent \<Longrightarrow>
   handleAnalyze generateContent JSON_parse textContent None st =
     ([st\<lparr>isLoading := False, analysis := JNull, error := Some failureMessage\<rparr>], [])"
  by (simp add: handleAnalyze_def Let_def)

lemma handleAnalyze_failure:
  assumes "imageProp \<noteq> None \<or> truthy_str textContent"
    and "req = (case imageProp of Some im \<Rightarrow> imageRequest im | None \<Rightarrow> textRequest (the textContent))"
    and "generateContent req = NetworkFailure
         \<or> (\<exists>code. generateContent req = HttpError code)
         \<or> (\<exists>t. generateContent req = Response t
                \<and> JSON_parse (case t of None \<Rightarrow> ''undefined'' | Some x \<Rightarrow> x) = None)"
  shows "handleAnalyze generateContent JSON_parse textContent imageProp st =
     ([st\<lparr>isLoading := True, analysis := JNull, error := None\<rparr>,
       st\<lparr>isLoading := False, analysis := JNull, error := Some failureMessage\<rparr>], [req])"
proof (cases imageProp)
  case None
  with assms(1) have t: "truthy_str textContent" by simp
  from assms(2) None have r: "textRequest (the textContent) = req" by simp
  from assms(3) show ?thesis
    by (auto simp: handleAnalyze_def Let_def None t r)
next
  case (Some im)
  from assms(2) Some have r: "imageRequest im = req" by simp
  from assms(3) show ?thesis
    by (auto simp: handleAnalyze_def Let_def Some r)
qed

lemma handleAnalyze_success:
  assumes "imageProp \<noteq> None \<or> truthy_str textContent"
    and "req = (case imageProp of Some im \<Rightarrow> imageRequest im | None \<Rightarrow> textRequest (the textContent))"
    and "generateContent req = Response t"
    and "JSON_parse (case t of None \<Rightarrow> ''undefined'' | Some x \<Rightarrow> x) = Some resultJson"
  shows "handleAnalyze generateContent JSON_parse textContent imageProp st =
     ([st\<lparr>isLoading := True, analysis := JNull, error := None\<rparr>,
       st\<lparr>isLoading := False, analysis := resultJson, error := None\<rparr>], [req])"
proof (cases imageProp)
  case None
  with assms(1) have t: "truthy_str textContent" by simp
  from assms(2) None have r: "textRequest (the textContent) = req" by simp
  show ?thesis
    by (simp add: handleAnalyze_def Let_def None t r assms(3,4))
next
  case (Some im)
  from assms(2) Some have r: "imageRequest im = req" by simp
  show ?thesis
    by (simp add: handleAnalyze_def Let_def Some r assms(3,4))
qed

lemma handleAnalyze_requests: "length (snd (handleAnalyze generateContent JSON_parse textContent imageProp st)) \<le> 1"
  by (simp add: handleAnalyze_def Let_def split: option.splits outcome.splits)

lemma handleAnalyze_no_result_with_error:
  "\<forall>s\<in>set (fst (handleAnalyze generateContent JSON_parse textContent imageProp st)).
     error s \<noteq> None \<longrightarrow> analysis s = JNull"
  by (simp add: handleAnalyze_def Let_def split: option.splits outcome.splits)

lemma failureMessage_truthy: "truthy_str (Some failureMessage)"
  by (simp add: truthy_str_def failureMessage_def)





lemma handleAnalyze_image_requests:
  "snd (handleAnalyze generateContent JSON_parse textContent (Some im) st) = [imageRequest im]"
  by (simp add: handleAnalyze_def Let_def split: option.splits outcome.splits)

lemma handleAnalyze_text_requests:
  "truthy_str textContent \<Longrightarrow>
   snd (handleAnalyze generateContent JSON_parse textContent None st) = [textRequest (the textContent)]"
  by (simp add: handleAnalyze_def Let_def split: option.splits outcome.splits)

lemma checkForUpdates_first_check:
  "\<not> snoozed now st \<Longrightarrow>
   checkForUpdates toString now st (Body (JObj [(''sha'', JStr r1)])) audio (st, None) =
     ((st, Some r1), [])"
  by (simp add: checkForUpdates_def checkForUpdates_resume_def truthy_str_def)

lemma checkForUpdates_new_revision:
  "\<not> snoozed now st \<Longrightarrow> r1 \<noteq> [] \<Longrightarrow> r2 \<noteq> r1 \<Longrightarrow>
   checkForUpdates toString now st (Body (JObj [(''sha'', JStr r2)])) audio (st, Some r1) =
     ((st\<lparr>showUpdateModal := True\<rparr>, Some r1),
      SetShowUpdateModal True # (if audio then [AudioPlay] else []))"
  by (auto simp: checkForUpdates_def checkForUpdates_resume_def truthy_str_def)

lemma handleSnooze_window:
  "0 \<le> t0 \<Longrightarrow> t < t0 + 600000 \<Longrightarrow> snoozed t (handleSnooze t0 10 st)"
  by (simp add: snoozed_def handleSnooze_def)

lemma checkForUpdates_started_in_window:
  "0 \<le> t0 \<Longrightarrow> t < t0 + 600000 \<Longrightarrow>
   checkForUpdates toString t (handleSnooze t0 10 st) res audio c = (c, [])"
  by (simp add: checkForUpdates_def handleSnooze_window)

section \<open>The claims\<close>

text \<open>
  Claim C1. A run that is accepted (no run active, a payload present) goes through the
  whole script: for any script the loop leaves one entry per stage, in script order, and
  none is pending when every scripted status is terminal. For the fixed script of nine
  stages the Log Store ends with the nine stage messages in order followed by one
  message about session persistence; no entry is pending; the sixth entry is the scripted
  failure and the run goes on after it; the ninth entry has status \<open>success\<close> and the
  trailing entry has status \<open>info\<close>; the run is marked complete and no longer active. The
  identifiers play no part in this. When the nine identifiers drawn are distinct, the
  statuses are exactly the scripted ones.
\<close>

theorem C1_run_appends_every_stage:
  assumes "\<not> isSyncing st" and "hasData st"
  shows "map message (final_logs w 0 ss []) = map msg ss
    \<and> ((\<forall>s\<in>set ss. status_step s \<noteq> Pending) \<longrightarrow>
          (\<forall>e\<in>set (final_logs w 0 ss []). status e \<noteq> Pending))
    \<and> map message (logs (last (handleStartSync w st))) =
          map msg (steps st) @
            [if isSessionPersistent st then ''SESSION PERSISTENCE ENABLED.''
             else ''SESSION PERSISTENCE DISABLED. CLEARING INPUT ON NEXT ACTION.'']
    \<and> length (logs (last (handleStartSync w st))) = 10
    \<and> (\<forall>e\<in>set (logs (last (handleStartSync w st))). status e \<noteq> Pending)
    \<and> message (logs (last (handleStartSync w st)) ! 5) = ''SYNC FAILED: ACCESS RESTRICTED.''
    \<and> status (logs (last (handleStartSync w st)) ! 8) = Success
    \<and> status (logs (last (handleStartSync w st)) ! 9) = Info
    \<and> syncCompleted (last (handleStartSync w st))
    \<and> \<not> isSyncing (last (handleStartSync w st))
    \<and> (distinct (map (newId w) [0..<9]) \<longrightarrow>
          map status (logs (last (handleStartSync w st))) =
            [Info, Info, Info, Info, Info, Error, Info, Success, Success, Info])"
proof -
  let ?fin = "final_logs w 0 (steps st) []"
  let ?t = "\<lparr>id_log = newId w 9,
             message = (if isSessionPersistent st then ''SESSION PERSISTENCE ENABLED.''
                        else ''SESSION PERSISTENCE DISABLED. CLEARING INPUT ON NEXT ACTION.''),
             status = Info\<rparr>"
  have logs: "logs (last (handleStartSync w st)) = ?fin @ [?t]"
    by (rule handleStartSync_last_logs [OF assms])
  have len: "length ?fin = 9"
    by (simp add: final_logs_length steps_length)
  have m: "map message ?fin = map msg (steps st)"
    by (simp add: final_logs_message)
  have nopend: "\<forall>e\<in>set ?fin. status e \<noteq> Pending"
    by (rule final_logs_terminal [OF steps_terminal]) simp
  have "?fin \<noteq> []" using len by auto
  then have "last ?fin = ?fin ! 8"
    using len by (simp add: last_conv_nth)
  moreover have "status (last ?fin) = status_step (last (steps st))"
    by (rule final_logs_last) (simp add: steps_def)
  ultimately have s8: "status (?fin ! 8) = Success"
    by (simp add: steps_def)
  have "message (?fin ! 5) = map message ?fin ! 5"
    using len by simp
  then have m5: "message (?fin ! 5) = ''SYNC FAILED: ACCESS RESTRICTED.''"
    unfolding m by (simp add: steps_def)
  have c1: "map message (final_logs w 0 ss []) = map msg ss"
    by (simp add: final_logs_message)
  have c2: "(\<forall>s\<in>set ss. status_step s \<noteq> Pending) \<longrightarrow>
          (\<forall>e\<in>set (final_logs w 0 ss []). status e \<noteq> Pending)"
    using final_logs_terminal [of ss "[]" w 0] by simp
  have c3: "map message (logs (last (handleStartSync w st))) =
          map msg (steps st) @
            [if isSessionPersistent st then ''SESSION PERSISTENCE ENABLED.''
             else ''SESSION PERSISTENCE DISABLED. CLEARING INPUT ON NEXT ACTION.'']"
    unfolding logs by (simp add: m)
  have c4: "length (logs (last (handleStartSync w st))) = 10"
    unfolding logs by (simp add: len)
  have c5: "\<forall>e\<in>set (logs (last (handleStartSync w st))). status e \<noteq> Pending"
    unfolding logs using nopend by simp
  have c6: "message (logs (last (handleStartSync w st)) ! 5) = ''SYNC FAILED: ACCESS RESTRICTED.''"
    unfolding logs using m5 len by (simp add: nth_append)
  have c7: "status (logs (last (handleStartSync w st)) ! 8) = Success"
    unfolding logs using s8 len by (simp add: nth_append)
  have c8: "status (logs (last (handleStartSync w st)) ! 9) = Info"
    unfolding logs using len by (simp add: nth_append)
  have c9: "syncCompleted (last (handleStartSync w st))"
    by (simp add: handleStartSync_accepted [OF assms])
  have c10: "\<not> isSyncing (last (handleStartSync w st))"
    by (simp add: handleStartSync_accepted [OF assms])
  have c11: "distinct (map (newId w) [0..<9]) \<longrightarrow>
          map status (logs (last (handleStartSync w st))) =
            [Info, Info, Info, Info, Info, Error, Info, Success, Success, Info]"
  proof
    assume d: "distinct (map (newId w) [0..<9])"
    have "?fin = [] @ scripted w 0 (steps st)"
      by (rule final_logs_scripted) (simp_all add: steps_length d del: upt_Suc)
    then show "map status (logs (last (handleStartSync w st))) =
            [Info, Info, Info, Info, Info, Error, Info, Success, Success, Info]"
      unfolding logs by (simp add: scripted_status steps_status)
  qed
  from c1 c2 c3 c4 c5 c6 c7 c8 c9 c10 c11 show ?thesis by blast
qed

text \<open>The run on the pasted text \<open>hello world\<close>, with session persistence off.\<close>

theorem C1_run_appends_every_stage_witness:
  "map message (logs (last (handleStartSync
      \<lparr>id_drawn = \<lambda>k. 1000 * real k + 1 / 2\<rparr>
      \<lparr>isAuthenticated = True, logs = [], isSyncing = False, isSessionPersistent = False,
        fileContent = None, pastedContent = ''hello world'', fileName = None, imageData = None,
        syncCompleted = False, showAnalyzer = False, showUpdateModal = False,
        snoozeUntil = None\<rparr>))) =
     [''INITIALIZING PHANTOM_V RUNTIME'', ''PROCESSING DATA: Pasted Content'',
      ''ESTABLISHING SECURE CONNECTION'', ''ANALYZING DATA STRUCTURE'',
      ''ATTEMPTING KERNEL-LEVEL SYNC'', ''SYNC FAILED: ACCESS RESTRICTED.'',
      ''FALLBACK TO PAYLOAD INJECTION'', ''SUCCESS: 11 chars SYNCED.'',
      ''SYNC COMPLETE. STANDBY.'',
      ''SESSION PERSISTENCE DISABLED. CLEARING INPUT ON NEXT ACTION.'']
   \<and> map status (logs (last (handleStartSync
      \<lparr>id_drawn = \<lambda>k. 1000 * real k + 1 / 2\<rparr>
      \<lparr>isAuthenticated = True, logs = [], isSyncing = False, isSessionPersistent = False,
        fileContent = None, pastedContent = ''hello world'', fileName = None, imageData = None,
        syncCompleted = False, showAnalyzer = False, showUpdateModal = False,
        snoozeUntil = None\<rparr>))) =
     [Info, Info, Info, Info, Info, Error, Info, Success, Success, Info]"
proof -
  let ?w = "\<lparr>id_drawn = \<lambda>k. 1000 * real k + 1 / 2\<rparr>"
  let ?st = "\<lparr>isAuthenticated = True, logs = [], isSyncing = False, isSessionPersistent = False,
        fileContent = None, pastedContent = ''hello world'', fileName = None, imageData = None,
        syncCompleted = False, showAnalyzer = False, showUpdateModal = False,
        snoozeUntil = None\<rparr>"
  have h1: "\<not> isSyncing ?st" by simp
  have h2: "hasData ?st" by (simp add: hasData_def)
  have d: "distinct (map (newId ?w) [0..<9])"
    by (simp add: newId_def upt_conv_Cons)
  have sz: "string_of_nat 11 = ''11''"
    by code_simp
  have st: "map msg (steps ?st) =
     [''INITIALIZING PHANTOM_V RUNTIME'', ''PROCESSING DATA: Pasted Content'',
      ''ESTABLISHING SECURE CONNECTION'', ''ANALYZING DATA STRUCTURE'',
      ''ATTEMPTING KERNEL-LEVEL SYNC'', ''SYNC FAILED: ACCESS RESTRICTED.'',
      ''FALLBACK TO PAYLOAD INJECTION'', ''SUCCESS: 11 chars SYNCED.'',
      ''SYNC COMPLETE. STANDBY.'']"
    by code_simp
  show ?thesis
    using C1_run_appends_every_stage [OF h1 h2, of ?w "[]"] d st by simp
qed




text \<open>
  Claim C3. A trigger invoked while a run is active, or with no payload, returns the state
  it was called in and nothing else: the Log Store and every other cell are unchanged and
  no stage is run. Every state of an accepted run before its return has \<open>isSyncing\<close> set,
  so a trigger invoked at any suspension point of a run is rejected in this way.
\<close>

theorem C3_rejected_trigger_changes_nothing:
  "(isSyncing st \<or> \<not> hasData st \<longrightarrow> handleStartSync w st = [st])
   \<and> (\<not> isSyncing st \<and> hasData st \<longrightarrow>
        (\<forall>s\<in>set (butlast (handleStartSync w st)).
            isSyncing s \<and> handleStartSync w' s = [s]))"
proof (intro conjI impI)
  assume "isSyncing st \<or> \<not> hasData st"
  then show "handleStartSync w st = [st]" by (rule handleStartSync_rejected)
next
  assume a: "\<not> isSyncing st \<and> hasData st"
  show "\<forall>s\<in>set (butlast (handleStartSync w st)). isSyncing s \<and> handleStartSync w' s = [s]"
  proof
    fix s assume "s \<in> set (butlast (handleStartSync w st))"
    then have "isSyncing s"
      using a by (auto simp: handleStartSync_suspended)
    then show "isSyncing s \<and> handleStartSync w' s = [s]"
      by (simp add: handleStartSync_rejected)
  qed
qed

text \<open>
  A trigger with a run active, a trigger with no payload, and a trigger at the first
  suspension point of the run on \<open>hello world\<close>.
\<close>

theorem C3_rejected_trigger_changes_nothing_witness:
  "handleStartSync
      \<lparr>id_drawn = \<lambda>k. 1000 * real k + 1 / 2\<rparr>
      \<lparr>isAuthenticated = True, logs = [], isSyncing = True, isSessionPersistent = False,
        fileContent = None, pastedContent = ''hello world'', fileName = None, imageData = None,
        syncCompleted = False, showAnalyzer = False, showUpdateModal = False,
        snoozeUntil = None\<rparr> =
     [\<lparr>isAuthenticated = True, logs = [], isSyncing = True, isSessionPersistent = False,
        fileContent = None, pastedContent = ''hello world'', fileName = None, imageData = None,
        syncCompleted = False, showAnalyzer = False, showUpdateModal = False,
        snoozeUntil = None\<rparr>]
   \<and> handleStartSync
      \<lparr>id_drawn = \<lambda>k. 1000 * real k + 1 / 2\<rparr>
      \<lparr>isAuthenticated = True, logs = [], isSyncing = False, isSessionPersistent = False,
        fileContent = None, pastedContent = [], fileName = None, imageData = None,
        syncCompleted = False, showAnalyzer = False, showUpdateModal = False,
        snoozeUntil = None\<rparr> =
     [\<lparr>isAuthenticated = True, logs = [], isSyncing = False, isSessionPersistent = False,
        fileContent = None, pastedContent = [], fileName = None, imageData = None,
        syncCompleted = False, showAnalyzer = False, showUpdateModal = False,
        snoozeUntil = None\<rparr>]
   \<and> isSyncing (handleStartSync
      \<lparr>id_drawn = \<lambda>k. 1000 * real k + 1 / 2\<rparr>
      \<lparr>isAuthenticated = True, logs = [], isSyncing = False, isSessionPersistent = False,
        fileContent = None, pastedContent = ''hello world'', fileName = None, imageData = None,
        syncCompleted = False, showAnalyzer = False, showUpdateModal = False,
        snoozeUntil = None\<rparr> ! 0)
   \<and> handleStartSync
      \<lparr>id_drawn = \<lambda>k. 1000 * real k + 1 / 2\<rparr>
      (handleStartSync
        \<lparr>id_drawn = \<lambda>k. 1000 * real k + 1 / 2\<rparr>
        \<lparr>isAuthenticated = True, logs = [], isSyncing = False, isSessionPersistent = False,
          fileContent = None, pastedContent = ''hello world'', fileName = None, imageData = None,
          syncCompleted = False, showAnalyzer = False, showUpdateModal = False,
          snoozeUntil = None\<rparr> ! 0) =
     [handleStartSync
        \<lparr>id_drawn = \<lambda>k. 1000 * real k + 1 / 2\<rparr>
        \<lparr>isAuthenticated = True, logs = [], isSyncing = False, isSessionPersistent = False,
          fileContent = None, pastedContent = ''hello world'', fileName = None, imageData = None,
          syncCompleted = False, showAnalyzer = False, showUpdateModal = False,
          snoozeUntil = None\<rparr> ! 0]"
proof -
  let ?w = "\<lparr>id_drawn = \<lambda>k. 1000 * real k + 1 / 2\<rparr>"
  let ?run = "\<lparr>isAuthenticated = True, logs = [], isSyncing = True, isSessionPersistent = False,
        fileContent = None, pastedContent = ''hello world'', fileName = None, imageData = None,
        syncCompleted = False, showAnalyzer = False, showUpdateModal = False,
        snoozeUntil = None\<rparr>"
  let ?none = "\<lparr>isAuthenticated = True, logs = [], isSyncing = False, isSessionPersistent = False,
        fileContent = None, pastedContent = [], fileName = None, imageData = None,
        syncCompleted = False, showAnalyzer = False, showUpdateModal = False,
        snoozeUntil = None\<rparr>"
  let ?st = "\<lparr>isAuthenticated = True, logs = [], isSyncing = False, isSessionPersistent = False,
        fileContent = None, pastedContent = ''hello world'', fileName = None, imageData = None,
        syncCompleted = False, showAnalyzer = False, showUpdateModal = False,
        snoozeUntil = None\<rparr>"
  have h1: "\<not> isSyncing ?st" by simp
  have h2: "hasData ?st" by (simp add: hasData_def)
  have len: "length (butlast (handleStartSync ?w ?st)) = 18"
    by (simp only: handleStartSync_suspended [OF h1 h2] length_map run_steps_length steps_length)
  then have "butlast (handleStartSync ?w ?st) ! 0 \<in> set (butlast (handleStartSync ?w ?st))"
    by (intro nth_mem) simp
  moreover have "butlast (handleStartSync ?w ?st) ! 0 = handleStartSync ?w ?st ! 0"
    using len by (intro nth_butlast) simp
  ultimately have mem: "handleStartSync ?w ?st ! 0 \<in> set (butlast (handleStartSync ?w ?st))"
    by simp
  have a: "handleStartSync ?w ?run = [?run]"
    using C3_rejected_trigger_changes_nothing [of ?run ?w ?w] by simp
  have b: "handleStartSync ?w ?none = [?none]"
    using C3_rejected_trigger_changes_nothing [of ?none ?w ?w]
    by (simp add: hasData_def truthy_str_def)
  have "\<forall>s\<in>set (butlast (handleStartSync ?w ?st)). isSyncing s \<and> handleStartSync ?w s = [s]"
    using C3_rejected_trigger_changes_nothing [of ?st ?w ?w] h1 h2 by blast
  with mem have c: "isSyncing (handleStartSync ?w ?st ! 0)
      \<and> handleStartSync ?w (handleStartSync ?w ?st ! 0) = [handleStartSync ?w ?st ! 0]"
    by blast
  from a b c show ?thesis by blast
qed




text \<open>
  Claim C5, as stated, fails: when the response parses to the empty object, the result of
  an image payload has neither \<open>description\<close> nor \<open>tags\<close>, and the result of a text payload
  has neither \<open>dataType\<close> nor \<open>summary\<close>; neither is an error.
\<close>

theorem C5_required_fields_requested_not_checked_counterexample:
  \<open>handleAnalyze (\<lambda>q. Response (Some ''{}'')) (\<lambda>s. if s = ''{}'' then Some (JObj []) else None)
      None
      (Some \<lparr>url = ''data:image/png;base64,AAAA'', base64 = ''AAAA'', mimeType = ''image/png'',
              name = ''a.png''\<rparr>)
      \<lparr>isLoading = False, analysis = JNull, error = None\<rparr> =
     ([\<lparr>isLoading = True, analysis = JNull, error = None\<rparr>,
       \<lparr>isLoading = False, analysis = JObj [], error = None\<rparr>],
      [imageRequest \<lparr>url = ''data:image/png;base64,AAAA'', base64 = ''AAAA'',
                      mimeType = ''image/png'', name = ''a.png''\<rparr>])
   \<and> get_field (JObj []) ''description'' = None
   \<and> get_field (JObj []) ''tags'' = None
   \<and> handleAnalyze (\<lambda>q. Response (Some ''{}'')) (\<lambda>s. if s = ''{}'' then Some (JObj []) else None)
      (Some ''hello world'') None
      \<lparr>isLoading = False, analysis = JNull, error = None\<rparr> =
     ([\<lparr>isLoading = True, analysis = JNull, error = None\<rparr>,
       \<lparr>isLoading = False, analysis = JObj [], error = None\<rparr>],
      [textRequest ''hello world''])
   \<and> get_field (JObj []) ''dataType'' = None
   \<and> get_field (JObj []) ''summary'' = None\<close>
  by (simp add: handleAnalyze_def Let_def truthy_str_def)

text \<open>
  Claim C5, amended. For an image payload the one request issued is the image request,
  whose schema lists \<open>description\<close>, \<open>tags\<close> and \<open>anomaly\<close> as required; for a text payload
  it is the text request, whose schema lists \<open>dataType\<close>, \<open>summary\<close> and \<open>risks\<close> as
  required. The handler does not check the response against the schema: when the text
  parses, the result has exactly the fields of the parsed value, and no error is set.
\<close>

theorem C5_required_fields_requested_not_checked:
  "snd (handleAnalyze generateContent JSON_parse textContent (Some im) st) = [imageRequest im]
   \<and> (\<exists>props. responseSchema (imageRequest im) = OBJECT props [''description'', ''tags'', ''anomaly''])
   \<and> (truthy_str textContent \<longrightarrow>
        snd (handleAnalyze generateContent JSON_parse textContent None st) =
          [textRequest (the textContent)])
   \<and> (\<exists>props. responseSchema (textRequest x) = OBJECT props [''dataType'', ''summary'', ''risks''])
   \<and> ((imageProp \<noteq> None \<or> truthy_str textContent)
        \<and> generateContent
             (case imageProp of Some im \<Rightarrow> imageRequest im | None \<Rightarrow> textRequest (the textContent))
           = Response t
        \<and> JSON_parse (case t of None \<Rightarrow> ''undefined'' | Some x \<Rightarrow> x) = Some resultJson \<longrightarrow>
        error (last (fst (handleAnalyze generateContent JSON_parse textContent imageProp st))) = None
        \<and> (\<forall>k. get_field (analysis (last (fst
               (handleAnalyze generateContent JSON_parse textContent imageProp st)))) k =
              get_field resultJson k))"
proof (intro conjI impI)
  show "snd (handleAnalyze generateContent JSON_parse textContent (Some im) st) = [imageRequest im]"
    by (rule handleAnalyze_image_requests)
next
  show "\<exists>props. responseSchema (imageRequest im) = OBJECT props [''description'', ''tags'', ''anomaly'']"
    by (simp add: imageRequest_def imageSchema_def)
next
  assume "truthy_str textContent"
  then show "snd (handleAnalyze generateContent JSON_parse textContent None st) =
          [textRequest (the textContent)]"
    by (rule handleAnalyze_text_requests)
next
  show "\<exists>props. responseSchema (textRequest x) = OBJECT props [''dataType'', ''summary'', ''risks'']"
    by (simp add: textRequest_def textSchema_def)
next
  assume a: "(imageProp \<noteq> None \<or> truthy_str textContent)
        \<and> generateContent
             (case imageProp of Some im \<Rightarrow> imageRequest im | None \<Rightarrow> textRequest (the textContent))
           = Response t
        \<and> JSON_parse (case t of None \<Rightarrow> ''undefined'' | Some x \<Rightarrow> x) = Some resultJson"
  then show "error (last (fst (handleAnalyze generateContent JSON_parse textContent imageProp st))) = None"
    by (simp add: handleAnalyze_success [where generateContent = generateContent and JSON_parse = JSON_parse, OF _ refl])
  from a show "\<forall>k. get_field (analysis (last (fst
               (handleAnalyze generateContent JSON_parse textContent imageProp st)))) k =
              get_field resultJson k"
    by (simp add: handleAnalyze_success [where generateContent = generateContent and JSON_parse = JSON_parse, OF _ refl])
qed

text \<open>A text response that has \<open>dataType\<close> and lacks \<open>summary\<close>.\<close>

theorem C5_required_fields_requested_not_checked_witness:
  \<open>snd (handleAnalyze (\<lambda>q. Response (Some ''{"dataType":"Text"}''))
          (\<lambda>s. if s = ''{"dataType":"Text"}'' then Some (JObj [(''dataType'', JStr ''Text'')]) else None)
          (Some ''hello world'') None
          \<lparr>isLoading = False, analysis = JNull, error = None\<rparr>) =
     [textRequest ''hello world'']
   \<and> error (last (fst (handleAnalyze (\<lambda>q. Response (Some ''{"dataType":"Text"}''))
          (\<lambda>s. if s = ''{"dataType":"Text"}'' then Some (JObj [(''dataType'', JStr ''Text'')]) else None)
          (Some ''hello world'') None
          \<lparr>isLoading = False, analysis = JNull, error = None\<rparr>))) = None
   \<and> get_field (analysis (last (fst (handleAnalyze (\<lambda>q. Response (Some ''{"dataType":"Text"}''))
          (\<lambda>s. if s = ''{"dataType":"Text"}'' then Some (JObj [(''dataType'', JStr ''Text'')]) else None)
          (Some ''hello world'') None
          \<lparr>isLoading = False, analysis = JNull, error = None\<rparr>)))) ''dataType'' = Some (JStr ''Text'')
   \<and> get_field (analysis (last (fst (handleAnalyze (\<lambda>q. Response (Some ''{"dataType":"Text"}''))
          (\<lambda>s. if s = ''{"dataType":"Text"}'' then Some (JObj [(''dataType'', JStr ''Text'')]) else None)
          (Some ''hello world'') None
          \<lparr>isLoading = False, analysis = JNull, error = None\<rparr>)))) ''summary'' = None\<close>
proof -
  let ?g = \<open>\<lambda>q::request. Response (Some ''{"dataType":"Text"}'')\<close>
  let ?p = \<open>\<lambda>s. if s = ''{"dataType":"Text"}'' then Some (JObj [(''dataType'', JStr ''Text'')]) else None\<close>
  let ?a = \<open>\<lparr>isLoading = False, analysis = JNull, error = None\<rparr>\<close>
  note t = C5_required_fields_requested_not_checked
    [where generateContent = ?g and JSON_parse = ?p and textContent = \<open>Some ''hello world''\<close>
       and imageProp = None and st = ?a and t = \<open>Some ''{"dataType":"Text"}''\<close>
       and resultJson = \<open>JObj [(''dataType'', JStr ''Text'')]\<close>]
  have tr: \<open>truthy_str (Some ''hello world'')\<close>
    by (simp add: truthy_str_def)
  from t tr have r: \<open>snd (handleAnalyze ?g ?p (Some ''hello world'') None ?a) = [textRequest ''hello world'']\<close>
    by simp
  from t tr have e: \<open>error (last (fst (handleAnalyze ?g ?p (Some ''hello world'') None ?a))) = None\<close>
    by simp
  from t tr have f: \<open>\<forall>k. get_field (analysis (last (fst (handleAnalyze ?g ?p (Some ''hello world'') None ?a)))) k
      = get_field (JObj [(''dataType'', JStr ''Text'')]) k\<close>
    by simp
  from r e f show ?thesis by simp
qed

text \<open>
  Claim C6, as stated, fails: from the initial state of the component, a call with no
  payload ends in a different state.
\<close>

theorem C6_no_payload_sets_error_state_counterexample:
  "last (fst (handleAnalyze (\<lambda>q. NetworkFailure) (\<lambda>s. None) None None
            \<lparr>isLoading = False, analysis = JNull, error = None\<rparr>))
     \<noteq> \<lparr>isLoading = False, analysis = JNull, error = None\<rparr>"
  by (simp add: handleAnalyze_def Let_def truthy_str_def)

text \<open>
  Claim C6, amended. A call with no image and no truthy text issues no request and has no
  suspension point; its one state has \<open>isLoading\<close> false, \<open>analysis\<close> null and \<open>error\<close> set to
  the general failure message, and is drawn as the error panel with that message.
\<close>

theorem C6_no_payload_sets_error_state:
  assumes "\<not> truthy_str textContent"
  shows "handleAnalyze generateContent JSON_parse textContent None st =
     ([st\<lparr>isLoading := False, analysis := JNull, error := Some failureMessage\<rparr>], [])
   \<and> renderContent positive None
        (st\<lparr>isLoading := False, analysis := JNull, error := Some failureMessage\<rparr>) =
       ErrorPanel failureMessage"
  using handleAnalyze_no_payload [OF assms] failureMessage_truthy
  by (simp add: renderContent_def)

text \<open>The call with neither prop, from the initial state.\<close>

theorem C6_no_payload_sets_error_state_witness:
  "handleAnalyze (\<lambda>q. NetworkFailure) (\<lambda>s. None) None None
      \<lparr>isLoading = False, analysis = JNull, error = None\<rparr> =
     ([\<lparr>isLoading = False, analysis = JNull,
        error = Some ''Analysis failed. The AI core might be offline or the data payload is corrupted.''\<rparr>],
      [])
   \<and> renderContent (\<lambda>v. False) None
        \<lparr>isLoading = False, analysis = JNull,
          error = Some ''Analysis failed. The AI core might be offline or the data payload is corrupted.''\<rparr> =
       ErrorPanel ''Analysis failed. The AI core might be offline or the data payload is corrupted.''"
proof -
  have h: "\<not> truthy_str None" by (simp add: truthy_str_def)
  show ?thesis
    using C6_no_payload_sets_error_state
      [where generateContent = "\<lambda>q. NetworkFailure" and JSON_parse = "\<lambda>s. None"
         and st = "\<lparr>isLoading = False, analysis = JNull, error = None\<rparr>"
         and positive = "\<lambda>v. False", OF h]
    by (simp add: failureMessage_def)
qed

text \<open>
  Claim C7, as stated, fails. In the run on \<open>hello world\<close> with distinct identifiers, the
  run has 19 states, the Log Store of the last state before the return has nine entries,
  and the tenth entry appears in the last state with status \<open>info\<close>: it is never pending
  and no replacement touches it. And when every identifier drawn is the same, the
  replacement of the scripted failure (stage 5) turns all six entries of the store to
  \<open>error\<close>, the five earlier ones included.
\<close>

theorem C7_status_update_frame_counterexample:
  "length (handleStartSync
      \<lparr>id_drawn = \<lambda>k. 1000 * real k + 1 / 2\<rparr>
      \<lparr>isAuthenticated = True, logs = [], isSyncing = False, isSessionPersistent = False,
        fileContent = None, pastedContent = ''hello world'', fileName = None, imageData = None,
        syncCompleted = False, showAnalyzer = False, showUpdateModal = False,
        snoozeUntil = None\<rparr>) = 19
   \<and> length (logs (handleStartSync
      \<lparr>id_drawn = \<lambda>k. 1000 * real k + 1 / 2\<rparr>
      \<lparr>isAuthenticated = True, logs = [], isSyncing = False, isSessionPersistent = False,
        fileContent = None, pastedContent = ''hello world'', fileName = None, imageData = None,
        syncCompleted = False, showAnalyzer = False, showUpdateModal = False,
        snoozeUntil = None\<rparr> ! 17)) = 9
   \<and> logs (handleStartSync
      \<lparr>id_drawn = \<lambda>k. 1000 * real k + 1 / 2\<rparr>
      \<lparr>isAuthenticated = True, logs = [], isSyncing = False, isSessionPersistent = False,
        fileContent = None, pastedContent = ''hello world'', fileName = None, imageData = None,
        syncCompleted = False, showAnalyzer = False, showUpdateModal = False,
        snoozeUntil = None\<rparr> ! 18) ! 9 =
     \<lparr>id_log = 18001 / 2,
       message = ''SESSION PERSISTENCE DISABLED. CLEARING INPUT ON NEXT ACTION.'',
       status = Info\<rparr>
   \<and> map status (logs (handleStartSync
      \<lparr>id_drawn = \<lambda>k. 0\<rparr>
      \<lparr>isAuthenticated = True, logs = [], isSyncing = False, isSessionPersistent = False,
        fileContent = None, pastedContent = ''hello world'', fileName = None, imageData = None,
        syncCompleted = False, showAnalyzer = False, showUpdateModal = False,
        snoozeUntil = None\<rparr> ! 10)) =
     [Info, Info, Info, Info, Info, Pending]
   \<and> map status (logs (handleStartSync
      \<lparr>id_drawn = \<lambda>k. 0\<rparr>
      \<lparr>isAuthenticated = True, logs = [], isSyncing = False, isSessionPersistent = False,
        fileContent = None, pastedContent = ''hello world'', fileName = None, imageData = None,
        syncCompleted = False, showAnalyzer = False, showUpdateModal = False,
        snoozeUntil = None\<rparr> ! 11)) =
     [Error, Error, Error, Error, Error, Error]"
proof -
  let ?w = "\<lparr>id_drawn = \<lambda>k. 1000 * real k + 1 / 2\<rparr>"
  let ?c = "\<lparr>id_drawn = \<lambda>k. 0\<rparr>"
  let ?st = "\<lparr>isAuthenticated = True, logs = [], isSyncing = False, isSessionPersistent = False,
        fileContent = None, pastedContent = ''hello world'', fileName = None, imageData = None,
        syncCompleted = False, showAnalyzer = False, showUpdateModal = False,
        snoozeUntil = None\<rparr>"
  have h1: "\<not> isSyncing ?st" by simp
  have h2: "hasData ?st" by (simp add: hasData_def)
  have a: "length (handleStartSync ?w ?st) = 19"
    by (rule handleStartSync_length [OF h1 h2])
  have b: "length (logs (handleStartSync ?w ?st ! 17)) = 9"
    by (rule handleStartSync_last_suspended_length [OF h1 h2])
  have "logs (handleStartSync ?w ?st ! 18) ! 9 =
      (logs (handleStartSync ?w ?st ! 17) @
        [\<lparr>id_log = newId ?w 9,
          message = (if isSessionPersistent ?st then ''SESSION PERSISTENCE ENABLED.''
                     else ''SESSION PERSISTENCE DISABLED. CLEARING INPUT ON NEXT ACTION.''),
          status = Info\<rparr>]) ! 9"
    by (simp only: handleStartSync_trailing [OF h1 h2])
  also have "\<dots> = \<lparr>id_log = newId ?w 9,
          message = (if isSessionPersistent ?st then ''SESSION PERSISTENCE ENABLED.''
                     else ''SESSION PERSISTENCE DISABLED. CLEARING INPUT ON NEXT ACTION.''),
          status = Info\<rparr>"
    using nth_append_length [of "logs (handleStartSync ?w ?st ! 17)"] b by simp
  also have "\<dots> = \<lparr>id_log = 18001 / 2,
       message = ''SESSION PERSISTENCE DISABLED. CLEARING INPUT ON NEXT ACTION.'',
       status = Info\<rparr>"
    by (simp add: newId_def)
  finally have c: "logs (handleStartSync ?w ?st ! 18) ! 9 =
     \<lparr>id_log = 18001 / 2,
       message = ''SESSION PERSISTENCE DISABLED. CLEARING INPUT ON NEXT ACTION.'',
       status = Info\<rparr>" .
  have s10: "logs (handleStartSync ?c ?st ! 10) = run_steps ?c 0 (steps ?st) [] ! 10"
    by (rule handleStartSync_nth_logs [OF h1 h2]) simp
  have s11: "logs (handleStartSync ?c ?st ! 11) = run_steps ?c 0 (steps ?st) [] ! 11"
    by (rule handleStartSync_nth_logs [OF h1 h2]) simp
  have d: "map status (logs (handleStartSync ?c ?st ! 10)) = [Info, Info, Info, Info, Info, Pending]"
    by (simp only: s10 equal_ids_before_failure)
  have e: "map status (logs (handleStartSync ?c ?st ! 11)) = [Error, Error, Error, Error, Error, Error]"
    by (simp only: s11 equal_ids_after_failure)
  show ?thesis
    by (intro conjI) (rule a, rule b, rule c, rule d, rule e)
qed

text \<open>
  Claim C7, amended. The status replacement keeps the length of the sequence and the
  identifier and message at every position; every entry whose identifier equals the given
  one becomes a copy with the new status, and every entry with another identifier is
  unchanged. In an accepted run, for each stage \<open>j\<close>: the store after the replacement is
  the replacement applied to the store after the push; the store after the push has
  \<open>j + 1\<close> entries, the last of them the pending entry of the stage; after the
  replacement that entry carries the scripted status, which is not pending. When the
  nine identifiers drawn are distinct, the replacement leaves the entries before it
  unchanged and the entry of stage \<open>j\<close> is the same in every later state of the run, the
  last included, so each stage entry changes status once, from pending to its terminal
  status. The run has 19 states; the trailing entry is appended in the last one, with
  status \<open>info\<close>, to the nine entries of the state before, and nothing replaces it.
\<close>

theorem C7_status_update_frame:
  assumes "\<not> isSyncing st" and "hasData st" and "j < 9"
  shows "length (setStatus pid s xs) = length xs
    \<and> map id_log (setStatus pid s xs) = map id_log xs
    \<and> map message (setStatus pid s xs) = map message xs
    \<and> (\<forall>i<length xs. setStatus pid s xs ! i =
          (if id_log (xs ! i) = pid then (xs ! i)\<lparr>status := s\<rparr> else xs ! i))
    \<and> logs (handleStartSync w st ! Suc (2 * j)) =
          setStatus (newId w j) (status_step (steps st ! j)) (logs (handleStartSync w st ! (2 * j)))
    \<and> length (logs (handleStartSync w st ! (2 * j))) = Suc j
    \<and> logs (handleStartSync w st ! (2 * j)) ! j =
          \<lparr>id_log = newId w j, message = msg (steps st ! j), status = Pending\<rparr>
    \<and> logs (handleStartSync w st ! Suc (2 * j)) ! j =
          \<lparr>id_log = newId w j, message = msg (steps st ! j), status = status_step (steps st ! j)\<rparr>
    \<and> status_step (steps st ! j) \<noteq> Pending
    \<and> (distinct (map (newId w) [0..<9]) \<longrightarrow>
          (\<forall>i<j. logs (handleStartSync w st ! Suc (2 * j)) ! i =
                   logs (handleStartSync w st ! (2 * j)) ! i)
          \<and> (\<forall>n. Suc (2 * j) \<le> n \<and> n < 19 \<longrightarrow>
                logs (handleStartSync w st ! n) ! j =
                  \<lparr>id_log = newId w j, message = msg (steps st ! j),
                    status = status_step (steps st ! j)\<rparr>))
    \<and> length (handleStartSync w st) = 19
    \<and> length (logs (handleStartSync w st ! 17)) = 9
    \<and> logs (handleStartSync w st ! 18) =
          logs (handleStartSync w st ! 17) @
            [\<lparr>id_log = newId w 9,
              message = (if isSessionPersistent st then ''SESSION PERSISTENCE ENABLED.''
                         else ''SESSION PERSISTENCE DISABLED. CLEARING INPUT ON NEXT ACTION.''),
              status = Info\<rparr>]"
proof -
  note acc = assms(1,2)
  let ?e = "\<lparr>id_log = newId w j, message = msg (steps st ! j), status = status_step (steps st ! j)\<rparr>"
  let ?p = "\<lparr>id_log = newId w j, message = msg (steps st ! j), status = Pending\<rparr>"
  have a1: "length (setStatus pid s xs) = length xs"
    by (rule setStatus_length)
  have a2: "map id_log (setStatus pid s xs) = map id_log xs"
    by (rule setStatus_id)
  have a3: "map message (setStatus pid s xs) = map message xs"
    by (rule setStatus_message)
  have a4: "\<forall>i<length xs. setStatus pid s xs ! i =
          (if id_log (xs ! i) = pid then (xs ! i)\<lparr>status := s\<rparr> else xs ! i)"
    by (simp add: setStatus_def)
  have j2: "2 * j < 18" "Suc (2 * j) < 18" using assms(3) by simp_all
  have jl: "j < length (steps st)" using assms(3) by (simp add: steps_length)
  have b1: "logs (handleStartSync w st ! Suc (2 * j)) =
          setStatus (newId w j) (status_step (steps st ! j)) (logs (handleStartSync w st ! (2 * j)))"
    unfolding handleStartSync_nth_logs [OF acc j2(1)] handleStartSync_nth_logs [OF acc j2(2)]
    using run_steps_pair [OF jl, of w 0 "[]"] by simp
  obtain pre where pre: "length pre = j"
    and ev: "logs (handleStartSync w st ! (2 * j)) = pre @ [?p]"
    unfolding handleStartSync_nth_logs [OF acc j2(1)]
    using run_steps_even_shape [OF jl, of "[]" w 0] by auto
  have b2: "length (logs (handleStartSync w st ! (2 * j))) = Suc j"
    by (simp add: ev pre)
  have b3: "logs (handleStartSync w st ! (2 * j)) ! j = ?p"
    using nth_append_length [of pre ?p] by (simp add: ev pre)
  have b4: "logs (handleStartSync w st ! Suc (2 * j)) ! j = ?e"
    unfolding b1 ev using setStatus_own_entry [of "newId w j" "status_step (steps st ! j)" pre]
    by (simp add: pre)
  have b5: "status_step (steps st ! j) \<noteq> Pending"
    using steps_terminal [of st] jl by simp
  have c: "distinct (map (newId w) [0..<9]) \<longrightarrow>
          (\<forall>i<j. logs (handleStartSync w st ! Suc (2 * j)) ! i =
                   logs (handleStartSync w st ! (2 * j)) ! i)
          \<and> (\<forall>n. Suc (2 * j) \<le> n \<and> n < 19 \<longrightarrow> logs (handleStartSync w st ! n) ! j = ?e)"
  proof
    assume d: "distinct (map (newId w) [0..<9])"
    note ev' = handleStartSync_even [OF acc d]
    note od = handleStartSync_odd [OF acc d]
    have c1: "\<forall>i<j. logs (handleStartSync w st ! Suc (2 * j)) ! i =
                   logs (handleStartSync w st ! (2 * j)) ! i"
    proof (intro allI impI)
      fix i assume "i < j"
      then show "logs (handleStartSync w st ! Suc (2 * j)) ! i = logs (handleStartSync w st ! (2 * j)) ! i"
        using assms(3)
        by (simp add: ev' od nth_append scripted_length scripted_take_nth steps_length)
    qed
    have c2: "\<forall>n. Suc (2 * j) \<le> n \<and> n < 19 \<longrightarrow> logs (handleStartSync w st ! n) ! j = ?e"
    proof (intro allI impI)
      fix n assume n: "Suc (2 * j) \<le> n \<and> n < 19"
      consider (fin) "n = 18" | (even) j' where "n = 2 * j'" "j' < 9"
        | (odd) j' where "n = Suc (2 * j')" "j' < 9"
      proof -
        have "n = 18 \<or> (n = 2 * (n div 2) \<and> n div 2 < 9) \<or> (n = Suc (2 * (n div 2)) \<and> n div 2 < 9)"
          using n by presburger
        then show ?thesis using fin even odd by blast
      qed
      then show "logs (handleStartSync w st ! n) ! j = ?e"
      proof cases
        case fin
        have "logs (handleStartSync w st ! 18) ! j = scripted w 0 (steps st) ! j"
          using assms(3)
          by (simp add: handleStartSync_final [OF acc d] nth_append scripted_length steps_length)
        then show ?thesis
          using assms(3) by (simp add: fin scripted_nth steps_length)
      next
        case even
        with n have "j < j'" by simp
        then show ?thesis
          using even(2)
          by (simp add: even(1) ev' nth_append scripted_length scripted_take_nth steps_length)
      next
        case odd
        with n have "j < Suc j'" by simp
        then show ?thesis
          using odd(2)
          by (simp add: odd(1) od scripted_take_nth steps_length)
      qed
    qed
    from c1 c2 show "(\<forall>i<j. logs (handleStartSync w st ! Suc (2 * j)) ! i =
                   logs (handleStartSync w st ! (2 * j)) ! i)
          \<and> (\<forall>n. Suc (2 * j) \<le> n \<and> n < 19 \<longrightarrow> logs (handleStartSync w st ! n) ! j = ?e)"
      by blast
  qed
  have t1: "length (handleStartSync w st) = 19"
    by (rule handleStartSync_length [OF acc])
  have t3: "logs (handleStartSync w st ! 18) =
          logs (handleStartSync w st ! 17) @
            [\<lparr>id_log = newId w 9,
              message = (if isSessionPersistent st then ''SESSION PERSISTENCE ENABLED.''
                         else ''SESSION PERSISTENCE DISABLED. CLEARING INPUT ON NEXT ACTION.''),
              status = Info\<rparr>]"
    by (rule handleStartSync_trailing [OF acc])
  have "length (logs (handleStartSync w st ! 18)) = 10"
    by (simp add: handleStartSync_accepted [OF acc] nth_append run_steps_length steps_length
          final_logs_length)
  then have t2: "length (logs (handleStartSync w st ! 17)) = 9"
    unfolding t3 by simp
  from a1 a2 a3 a4 b1 b2 b3 b4 b5 c t1 t2 t3 show ?thesis by blast
qed

text \<open>The scripted failure (stage 5) and the trailing entry in the run on \<open>hello world\<close>.\<close>

theorem C7_status_update_frame_witness:
  "logs (handleStartSync
      \<lparr>id_drawn = \<lambda>k. 1000 * real k + 1 / 2\<rparr>
      \<lparr>isAuthenticated = True, logs = [], isSyncing = False, isSessionPersistent = False,
        fileContent = None, pastedContent = ''hello world'', fileName = None, imageData = None,
        syncCompleted = False, showAnalyzer = False, showUpdateModal = False,
        snoozeUntil = None\<rparr> ! 10) ! 5 =
     \<lparr>id_log = 10001 / 2, message = ''SYNC FAILED: ACCESS RESTRICTED.'', status = Pending\<rparr>
   \<and> logs (handleStartSync
      \<lparr>id_drawn = \<lambda>k. 1000 * real k + 1 / 2\<rparr>
      \<lparr>isAuthenticated = True, logs = [], isSyncing = False, isSessionPersistent = False,
        fileContent = None, pastedContent = ''hello world'', fileName = None, imageData = None,
        syncCompleted = False, showAnalyzer = False, showUpdateModal = False,
        snoozeUntil = None\<rparr> ! 11) ! 5 =
     \<lparr>id_log = 10001 / 2, message = ''SYNC FAILED: ACCESS RESTRICTED.'', status = Error\<rparr>
   \<and> logs (handleStartSync
      \<lparr>id_drawn = \<lambda>k. 1000 * real k + 1 / 2\<rparr>
      \<lparr>isAuthenticated = True, logs = [], isSyncing = False, isSessionPersistent = False,
        fileContent = None, pastedContent = ''hello world'', fileName = None, imageData = None,
        syncCompleted = False, showAnalyzer = False, showUpdateModal = False,
        snoozeUntil = None\<rparr> ! 18) ! 5 =
     \<lparr>id_log = 10001 / 2, message = ''SYNC FAILED: ACCESS RESTRICTED.'', status = Error\<rparr>
   \<and> logs (handleStartSync
      \<lparr>id_drawn = \<lambda>k. 1000 * real k + 1 / 2\<rparr>
      \<lparr>isAuthenticated = True, logs = [], isSyncing = False, isSessionPersistent = False,
        fileContent = None, pastedContent = ''hello world'', fileName = None, imageData = None,
        syncCompleted = False, showAnalyzer = False, showUpdateModal = False,
        snoozeUntil = None\<rparr> ! 18) =
     logs (handleStartSync
      \<lparr>id_drawn = \<lambda>k. 1000 * real k + 1 / 2\<rparr>
      \<lparr>isAuthenticated = True, logs = [], isSyncing = False, isSessionPersistent = False,
        fileContent = None, pastedContent = ''hello world'', fileName = None, imageData = None,
        syncCompleted = False, showAnalyzer = False, showUpdateModal = False,
        snoozeUntil = None\<rparr> ! 17) @
       [\<lparr>id_log = 18001 / 2,
         message = ''SESSION PERSISTENCE DISABLED. CLEARING INPUT ON NEXT ACTION.'',
         status = Info\<rparr>]"
proof -
  let ?w = "\<lparr>id_drawn = \<lambda>k. 1000 * real k + 1 / 2\<rparr>"
  let ?st = "\<lparr>isAuthenticated = True, logs = [], isSyncing = False, isSessionPersistent = False,
        fileContent = None, pastedContent = ''hello world'', fileName = None, imageData = None,
        syncCompleted = False, showAnalyzer = False, showUpdateModal = False,
        snoozeUntil = None\<rparr>"
  have h1: "\<not> isSyncing ?st" by simp
  have h2: "hasData ?st" by (simp add: hasData_def)
  have d: "distinct (map (newId ?w) [0..<9])"
    by (simp add: newId_def upt_conv_Cons)
  have h4: "(5::nat) < 9" by simp
  have s5: "steps ?st ! 5 = \<lparr>msg = ''SYNC FAILED: ACCESS RESTRICTED.'', delay = 800, status_step = Error\<rparr>"
    by (simp add: steps_def)
  have id5: "newId ?w 5 = 10001 / 2"
    by (simp add: newId_def)
  have id9: "newId ?w 9 = 18001 / 2"
    by (simp add: newId_def)
  note t = C7_status_update_frame [OF h1 h2 h4, of 0 Info "[]" ?w]
  from t have p10: "logs (handleStartSync ?w ?st ! (2 * 5)) ! 5 =
      \<lparr>id_log = newId ?w 5, message = msg (steps ?st ! 5), status = Pending\<rparr>"
    by blast
  from t have p11: "logs (handleStartSync ?w ?st ! Suc (2 * 5)) ! 5 =
      \<lparr>id_log = newId ?w 5, message = msg (steps ?st ! 5), status = status_step (steps ?st ! 5)\<rparr>"
    by blast
  from t d have "Suc (2 * 5) \<le> (18::nat) \<and> (18::nat) < 19 \<longrightarrow>
      logs (handleStartSync ?w ?st ! 18) ! 5 =
      \<lparr>id_log = newId ?w 5, message = msg (steps ?st ! 5), status = status_step (steps ?st ! 5)\<rparr>"
    by blast
  then have p18: "logs (handleStartSync ?w ?st ! 18) ! 5 =
      \<lparr>id_log = newId ?w 5, message = msg (steps ?st ! 5), status = status_step (steps ?st ! 5)\<rparr>"
    by simp
  from t have tr: "logs (handleStartSync ?w ?st ! 18) =
          logs (handleStartSync ?w ?st ! 17) @
            [\<lparr>id_log = newId ?w 9,
              message = (if isSessionPersistent ?st then ''SESSION PERSISTENCE ENABLED.''
                         else ''SESSION PERSISTENCE DISABLED. CLEARING INPUT ON NEXT ACTION.''),
              status = Info\<rparr>]"
    by blast
  have tr': "logs (handleStartSync ?w ?st ! 18) =
          logs (handleStartSync ?w ?st ! 17) @
            [\<lparr>id_log = 18001 / 2,
              message = ''SESSION PERSISTENCE DISABLED. CLEARING INPUT ON NEXT ACTION.'',
              status = Info\<rparr>]"
    using tr unfolding id9 by simp
  have q10: "logs (handleStartSync ?w ?st ! 10) ! 5 =
     \<lparr>id_log = 10001 / 2, message = ''SYNC FAILED: ACCESS RESTRICTED.'', status = Pending\<rparr>"
    using p10 by (simp add: s5 id5)
  have q11: "logs (handleStartSync ?w ?st ! 11) ! 5 =
     \<lparr>id_log = 10001 / 2, message = ''SYNC FAILED: ACCESS RESTRICTED.'', status = Error\<rparr>"
    using p11 by (simp add: s5 id5)
  have q18: "logs (handleStartSync ?w ?st ! 18) ! 5 =
     \<lparr>id_log = 10001 / 2, message = ''SYNC FAILED: ACCESS RESTRICTED.'', status = Error\<rparr>"
    using p18 by (simp add: s5 id5)
  from q10 q11 q18 tr' show ?thesis by (intro conjI)
qed

text \<open>
  Claim C8 fails in the code for a check that is in flight when the user snoozes. A check
  that starts outside any snooze window passes the guard and awaits its request. If
  \<open>handleSnooze\<close> with 10 minutes runs at time \<open>t0\<close> before the response is read, the check
  resumes on the snoozed state and does not test the guard again: when the stored
  revision is non-empty and the fetched one differs, it sets the modal flag (and plays
  the alert), although every time before \<open>t0 + 600000\<close> lies inside the window just set.
  (A check that starts inside the window returns at the guard: lemma
  \<open>checkForUpdates_started_in_window\<close>. The first two parts of the claim are lemmas
  \<open>checkForUpdates_first_check\<close> and \<open>checkForUpdates_new_revision\<close>.)
\<close>

theorem C8_check_in_flight_raises_during_snooze:
  assumes "\<not> snoozed t st" and "r1 \<noteq> []" and "r2 \<noteq> r1" and "0 \<le> t0"
    and "body \<noteq> JNull" and "get_field body ''sha'' = Some (JStr r2)"
  shows "checkForUpdates toString t st (Body body) audio (handleSnooze t0 10 st, Some r1) =
       (((handleSnooze t0 10 st)\<lparr>showUpdateModal := True\<rparr>, Some r1),
        SetShowUpdateModal True # (if audio then [AudioPlay] else []))
   \<and> snoozeUntil ((handleSnooze t0 10 st)\<lparr>showUpdateModal := True\<rparr>) = Some (t0 + 600000)
   \<and> (\<forall>t'. t' < t0 + 600000 \<longrightarrow> snoozed t' (handleSnooze t0 10 st))"
proof (intro conjI allI impI)
  show "checkForUpdates toString t st (Body body) audio (handleSnooze t0 10 st, Some r1) =
       (((handleSnooze t0 10 st)\<lparr>showUpdateModal := True\<rparr>, Some r1),
        SetShowUpdateModal True # (if audio then [AudioPlay] else []))"
    using assms(1,2,3,5,6)
    by (auto simp: checkForUpdates_def checkForUpdates_resume_def truthy_str_def)
next
  show "snoozeUntil ((handleSnooze t0 10 st)\<lparr>showUpdateModal := True\<rparr>) = Some (t0 + 600000)"
    by (simp add: handleSnooze_def)
next
  fix t' assume "t' < t0 + 600000"
  with assms(4) show "snoozed t' (handleSnooze t0 10 st)"
    by (rule handleSnooze_window)
qed

text \<open>
  The stored revision is \<open>aaa\<close> and the modal is open. A check starts at 601000 with no
  snooze set; the snooze is clicked at 601050; the response then arrives with revision
  \<open>bbb\<close>. The modal is raised again and the alert played, with \<open>snoozeUntil\<close> at 1201050.
\<close>

theorem C8_check_in_flight_raises_during_snooze_witness:
  "checkForUpdates (\<lambda>v. []) 601000
      \<lparr>isAuthenticated = True, logs = [], isSyncing = False, isSessionPersistent = False,
        fileContent = None, pastedContent = [], fileName = None, imageData = None,
        syncCompleted = False, showAnalyzer = False, showUpdateModal = True,
        snoozeUntil = None\<rparr>
      (Body (JObj [(''sha'', JStr ''bbb'')])) True
      (handleSnooze 601050 10
         \<lparr>isAuthenticated = True, logs = [], isSyncing = False, isSessionPersistent = False,
           fileContent = None, pastedContent = [], fileName = None, imageData = None,
           syncCompleted = False, showAnalyzer = False, showUpdateModal = True,
           snoozeUntil = None\<rparr>, Some ''aaa'') =
     ((\<lparr>isAuthenticated = True, logs = [], isSyncing = False, isSessionPersistent = False,
         fileContent = None, pastedContent = [], fileName = None, imageData = None,
         syncCompleted = False, showAnalyzer = False, showUpdateModal = True,
         snoozeUntil = Some 1201050\<rparr>, Some ''aaa''),
      [SetShowUpdateModal True, AudioPlay])
   \<and> handleSnooze 601050 10
         \<lparr>isAuthenticated = True, logs = [], isSyncing = False, isSessionPersistent = False,
           fileContent = None, pastedContent = [], fileName = None, imageData = None,
           syncCompleted = False, showAnalyzer = False, showUpdateModal = True,
           snoozeUntil = None\<rparr> =
       \<lparr>isAuthenticated = True, logs = [], isSyncing = False, isSessionPersistent = False,
         fileContent = None, pastedContent = [], fileName = None, imageData = None,
         syncCompleted = False, showAnalyzer = False, showUpdateModal = False,
         snoozeUntil = Some 1201050\<rparr>
   \<and> snoozed 601200
        (handleSnooze 601050 10
           \<lparr>isAuthenticated = True, logs = [], isSyncing = False, isSessionPersistent = False,
             fileContent = None, pastedContent = [], fileName = None, imageData = None,
             syncCompleted = False, showAnalyzer = False, showUpdateModal = True,
             snoozeUntil = None\<rparr>)"
proof -
  let ?st = "\<lparr>isAuthenticated = True, logs = [], isSyncing = False, isSessionPersistent = False,
        fileContent = None, pastedContent = [], fileName = None, imageData = None,
        syncCompleted = False, showAnalyzer = False, showUpdateModal = True,
        snoozeUntil = None\<rparr>"
  have h1: "\<not> snoozed 601000 ?st" by (simp add: snoozed_def)
  have h2: "''aaa'' \<noteq> []" by simp
  have h3: "''bbb'' \<noteq> ''aaa''" by simp
  have h4: "(0::int) \<le> 601050" by simp
  have h5: "JObj [(''sha'', JStr ''bbb'')] \<noteq> JNull" by simp
  have h6: "get_field (JObj [(''sha'', JStr ''bbb'')]) ''sha'' = Some (JStr ''bbb'')" by simp
  note t = C8_check_in_flight_raises_during_snooze
    [where toString = "\<lambda>v. []" and audio = True, OF h1 h2 h3 h4 h5 h6]
  from t have a: "checkForUpdates (\<lambda>v. []) 601000 ?st (Body (JObj [(''sha'', JStr ''bbb'')])) True
        (handleSnooze 601050 10 ?st, Some ''aaa'') =
      (((handleSnooze 601050 10 ?st)\<lparr>showUpdateModal := True\<rparr>, Some ''aaa''),
       SetShowUpdateModal True # (if True then [AudioPlay] else []))"
    by blast
  from t have "(601200::int) < 601050 + 600000 \<longrightarrow> snoozed 601200 (handleSnooze 601050 10 ?st)"
    by blast
  then have b: "snoozed 601200 (handleSnooze 601050 10 ?st)" by simp
  have c: "handleSnooze 601050 10 ?st = ?st\<lparr>snoozeUntil := Some 1201050, showUpdateModal := False\<rparr>"
    by (simp add: handleSnooze_def)
  from a b show ?thesis unfolding c by simp
qed

text \<open>
  Claim C9. With a payload present, a network failure, a transport status that is not a
  success, and a text that does not parse all give the same run of the handler: the
  loading state, then the state with \<open>analysis\<close> null and \<open>error\<close> set to the one failure
  message, drawn as the error panel; exactly one request is issued. For every call, at
  most one request is issued, and no state of the call has an error together with a
  result.
\<close>

theorem C9_failures_give_one_error_state:
  assumes "imageProp \<noteq> None \<or> truthy_str textContent"
    and "req = (case imageProp of Some im \<Rightarrow> imageRequest im | None \<Rightarrow> textRequest (the textContent))"
    and "generateContent req = NetworkFailure
         \<or> (\<exists>code. generateContent req = HttpError code)
         \<or> (\<exists>t. generateContent req = Response t
                \<and> JSON_parse (case t of None \<Rightarrow> ''undefined'' | Some x \<Rightarrow> x) = None)"
  shows "handleAnalyze generateContent JSON_parse textContent imageProp st =
     ([st\<lparr>isLoading := True, analysis := JNull, error := None\<rparr>,
       st\<lparr>isLoading := False, analysis := JNull, error := Some failureMessage\<rparr>], [req])
   \<and> renderContent positive imageProp
        (st\<lparr>isLoading := True, analysis := JNull, error := None\<rparr>) = Spinner
   \<and> renderContent positive imageProp
        (st\<lparr>isLoading := False, analysis := JNull, error := Some failureMessage\<rparr>) =
       ErrorPanel failureMessage
   \<and> length (snd (handleAnalyze g' p' tc' ip' a')) \<le> 1
   \<and> (\<forall>s\<in>set (fst (handleAnalyze g' p' tc' ip' a')). error s \<noteq> None \<longrightarrow> analysis s = JNull)"
  using handleAnalyze_failure [where generateContent = generateContent and JSON_parse = JSON_parse, OF assms]
    failureMessage_truthy
    handleAnalyze_requests [of g' p' tc' ip' a']
    handleAnalyze_no_result_with_error [of g' p' tc' ip' a']
  by (simp add: renderContent_def)

text \<open>The three failures on the text \<open>hello world\<close>.\<close>

theorem C9_failures_give_one_error_state_witness:
  "handleAnalyze (\<lambda>q. NetworkFailure) (\<lambda>s. None) (Some ''hello world'') None
      \<lparr>isLoading = False, analysis = JNull, error = None\<rparr> =
     ([\<lparr>isLoading = True, analysis = JNull, error = None\<rparr>,
       \<lparr>isLoading = False, analysis = JNull, error = Some failureMessage\<rparr>],
      [textRequest ''hello world''])
   \<and> handleAnalyze (\<lambda>q. HttpError 503) (\<lambda>s. None) (Some ''hello world'') None
      \<lparr>isLoading = False, analysis = JNull, error = None\<rparr> =
     ([\<lparr>isLoading = True, analysis = JNull, error = None\<rparr>,
       \<lparr>isLoading = False, analysis = JNull, error = Some failureMessage\<rparr>],
      [textRequest ''hello world''])
   \<and> handleAnalyze (\<lambda>q. Response (Some ''not json'')) (\<lambda>s. None) (Some ''hello world'') None
      \<lparr>isLoading = False, analysis = JNull, error = None\<rparr> =
     ([\<lparr>isLoading = True, analysis = JNull, error = None\<rparr>,
       \<lparr>isLoading = False, analysis = JNull, error = Some failureMessage\<rparr>],
      [textRequest ''hello world''])
   \<and> renderContent (\<lambda>v. False) None
        \<lparr>isLoading = False, analysis = JNull, error = Some failureMessage\<rparr> =
       ErrorPanel failureMessage"
proof -
  let ?a = "\<lparr>isLoading = False, analysis = JNull, error = None\<rparr>"
  let ?tc = "Some ''hello world''"
  let ?none = "None :: image option"
  have h1: "?none \<noteq> None \<or> truthy_str ?tc"
    by (simp add: truthy_str_def)
  have h2: "textRequest ''hello world'' =
      (case ?none of Some im \<Rightarrow> imageRequest im | None \<Rightarrow> textRequest (the ?tc))"
    by simp
  have f1: "(\<lambda>q. NetworkFailure) (textRequest ''hello world'') = NetworkFailure
      \<or> (\<exists>code. (\<lambda>q. NetworkFailure) (textRequest ''hello world'') = HttpError code)
      \<or> (\<exists>t. (\<lambda>q. NetworkFailure) (textRequest ''hello world'') = Response t
            \<and> (\<lambda>s. None) (case t of None \<Rightarrow> ''undefined'' | Some x \<Rightarrow> x) = (None :: json option))"
    by simp
  have f2: "(\<lambda>q. HttpError 503) (textRequest ''hello world'') = NetworkFailure
      \<or> (\<exists>code. (\<lambda>q. HttpError 503) (textRequest ''hello world'') = HttpError code)
      \<or> (\<exists>t. (\<lambda>q. HttpError 503) (textRequest ''hello world'') = Response t
            \<and> (\<lambda>s. None) (case t of None \<Rightarrow> ''undefined'' | Some x \<Rightarrow> x) = (None :: json option))"
    by simp
  have f3: "(\<lambda>q. Response (Some ''not json'')) (textRequest ''hello world'') = NetworkFailure
      \<or> (\<exists>code. (\<lambda>q. Response (Some ''not json'')) (textRequest ''hello world'') = HttpError code)
      \<or> (\<exists>t. (\<lambda>q. Response (Some ''not json'')) (textRequest ''hello world'') = Response t
            \<and> (\<lambda>s. None) (case t of None \<Rightarrow> ''undefined'' | Some x \<Rightarrow> x) = (None :: json option))"
    by simp
  note a = C9_failures_give_one_error_state
    [where generateContent = "\<lambda>q. NetworkFailure" and JSON_parse = "\<lambda>s. None" and st = ?a and positive = "\<lambda>v. False"
       and g' = "\<lambda>q. NetworkFailure" and p' = "\<lambda>s. None" and tc' = None and ip' = None and a' = ?a,
     OF h1 h2 f1]
  note b = C9_failures_give_one_error_state
    [where generateContent = "\<lambda>q. HttpError 503" and JSON_parse = "\<lambda>s. None" and st = ?a and positive = "\<lambda>v. False"
       and g' = "\<lambda>q. NetworkFailure" and p' = "\<lambda>s. None" and tc' = None and ip' = None and a' = ?a,
     OF h1 h2 f2]
  note c = C9_failures_give_one_error_state
    [where generateContent = "\<lambda>q. Response (Some ''not json'')" and JSON_parse = "\<lambda>s. None" and st = ?a and positive = "\<lambda>v. False"
       and g' = "\<lambda>q. NetworkFailure" and p' = "\<lambda>s. None" and tc' = None and ip' = None and a' = ?a,
     OF h1 h2 f3]
  from a b c show ?thesis by simp
qed

text \<open>
  Claim C10. When there is no image, the file content is absent or empty and the pasted
  content is empty, the run trigger returns the state unchanged; the text prop passed to
  the analyzer is the empty string, and the analysis handler does with it exactly what it
  does with no text at all: no request, and the failure state.
\<close>

theorem C10_empty_text_is_no_payload:
  assumes "imageData st = None"
    and "fileContent st = None \<or> fileContent st = Some []"
    and "pastedContent st = []"
  shows "handleStartSync w st = [st]
   \<and> textContent_of st = Some []
   \<and> handleAnalyze generateContent JSON_parse (textContent_of st) (imageData st) a =
       handleAnalyze generateContent JSON_parse None None a
   \<and> handleAnalyze generateContent JSON_parse (textContent_of st) (imageData st) a =
       ([a\<lparr>isLoading := False, analysis := JNull, error := Some failureMessage\<rparr>], [])"
proof -
  have nt: "\<not> truthy_str (fileContent st)"
    using assms(2) by (auto simp: truthy_str_def)
  have a1: "handleStartSync w st = [st]"
    by (simp add: handleStartSync_def nt assms(1,3))
  have a2: "textContent_of st = Some []"
    by (simp add: textContent_of_def nt assms(3))
  have e: "\<not> truthy_str (Some [])" "\<not> truthy_str None"
    by (simp_all add: truthy_str_def)
  show ?thesis
    by (simp add: a1 a2 assms(1) handleAnalyze_no_payload [OF e(1)] handleAnalyze_no_payload [OF e(2)])
qed

text \<open>An empty file: the trigger and the handler.\<close>

theorem C10_empty_text_is_no_payload_witness:
  "handleStartSync
      \<lparr>id_drawn = \<lambda>k. 1000 * real k + 1 / 2\<rparr>
      \<lparr>isAuthenticated = True, logs = [], isSyncing = False, isSessionPersistent = False,
        fileContent = Some [], pastedContent = [], fileName = Some ''empty.txt'', imageData = None,
        syncCompleted = False, showAnalyzer = False, showUpdateModal = False,
        snoozeUntil = None\<rparr> =
     [\<lparr>isAuthenticated = True, logs = [], isSyncing = False, isSessionPersistent = False,
        fileContent = Some [], pastedContent = [], fileName = Some ''empty.txt'', imageData = None,
        syncCompleted = False, showAnalyzer = False, showUpdateModal = False,
        snoozeUntil = None\<rparr>]
   \<and> handleAnalyze (\<lambda>q. Response (Some ''{}'')) (\<lambda>s. Some (JObj [])) (Some []) None
      \<lparr>isLoading = False, analysis = JNull, error = None\<rparr> =
     ([\<lparr>isLoading = False, analysis = JNull, error = Some failureMessage\<rparr>], [])
   \<and> handleAnalyze (\<lambda>q. Response (Some ''{}'')) (\<lambda>s. Some (JObj [])) None None
      \<lparr>isLoading = False, analysis = JNull, error = None\<rparr> =
     ([\<lparr>isLoading = False, analysis = JNull, error = Some failureMessage\<rparr>], [])"
proof -
  let ?w = "\<lparr>id_drawn = \<lambda>k. 1000 * real k + 1 / 2\<rparr>"
  let ?st = "\<lparr>isAuthenticated = True, logs = [], isSyncing = False, isSessionPersistent = False,
        fileContent = Some [], pastedContent = [], fileName = Some ''empty.txt'', imageData = None,
        syncCompleted = False, showAnalyzer = False, showUpdateModal = False,
        snoozeUntil = None\<rparr>"
  have h1: "imageData ?st = None" by simp
  have h2: "fileContent ?st = None \<or> fileContent ?st = Some []" by simp
  have h3: "pastedContent ?st = []" by simp
  note t = C10_empty_text_is_no_payload
    [where generateContent = "\<lambda>q. Response (Some ''{}'')" and JSON_parse = "\<lambda>s. Some (JObj [])"
       and w = ?w and a = "\<lparr>isLoading = False, analysis = JNull, error = None\<rparr>", OF h1 h2 h3]
  from t have s: "handleStartSync ?w ?st = [?st]" by blast
  from t have tc: "textContent_of ?st = Some []" by blast
  from t have e1: "handleAnalyze (\<lambda>q. Response (Some ''{}'')) (\<lambda>s. Some (JObj []))
        (textContent_of ?st) (imageData ?st) \<lparr>isLoading = False, analysis = JNull, error = None\<rparr> =
      handleAnalyze (\<lambda>q. Response (Some ''{}'')) (\<lambda>s. Some (JObj [])) None None
        \<lparr>isLoading = False, analysis = JNull, error = None\<rparr>"
    by blast
  from t have e2: "handleAnalyze (\<lambda>q. Response (Some ''{}'')) (\<lambda>s. Some (JObj []))
        (textContent_of ?st) (imageData ?st) \<lparr>isLoading = False, analysis = JNull, error = None\<rparr> =
      ([\<lparr>isLoading = False, analysis = JNull, error = None\<rparr>
          \<lparr>isLoading := False, analysis := JNull, error := Some failureMessage\<rparr>], [])"
    by blast
  have e3: "handleAnalyze (\<lambda>q. Response (Some ''{}'')) (\<lambda>s. Some (JObj [])) None None
        \<lparr>isLoading = False, analysis = JNull, error = None\<rparr> =
      ([\<lparr>isLoading = False, analysis = JNull, error = Some failureMessage\<rparr>], [])"
    using e1 e2 by simp
  have e4: "handleAnalyze (\<lambda>q. Response (Some ''{}'')) (\<lambda>s. Some (JObj [])) (Some []) None
        \<lparr>isLoading = False, analysis = JNull, error = None\<rparr> =
      ([\<lparr>isLoading = False, analysis = JNull, error = Some failureMessage\<rparr>], [])"
    using e2 unfolding tc by simp
  from s e3 e4 show ?thesis by blast
qed

end
